theory Spec2Isabelle
  imports Main "HOL-Library.Sublist" "HOL-Library.Monad_Syntax"
begin

section \<open>JavaScript values and strings\<close>

text \<open>
  The client is TypeScript. A JavaScript value is modelled by the datatype below; an
  object is its list of own properties, looked up by key, the first entry of a key being
  its property. Numbers are only tested for
  truthiness, so they are modelled by integers. A JavaScript string is modelled by a
  \<^typ>\<open>string\<close>, that is, by a list of code units below 256.
\<close>

datatype jsval =
    JUndefined
  | JNull
  | JBool bool
  | JNum int
  | JStr string
  | JArr "jsval list"
  | JObj "(string \<times> jsval) list"

section \<open>Message Store: the \<open>useAgentRun\<close> hook\<close>

text \<open>
  \<open>AgentMessage\<close> is typed with a string \<open>message_id\<close>; every other key of the object is
  kept in \<open>props\<close>. \<open>AgentRunState\<close> is the state of the hook; \<open>streamCleanupRef\<close> is the
  ref holding the cleanup handle of the running stream, and \<open>cleanups\<close> counts how often a
  handle has been invoked.
\<close>

record AgentMessage =
  message_id :: string
  props :: "string \<rightharpoonup> jsval"

record AgentRunState =
  byId :: "string \<rightharpoonup> AgentMessage"
  order :: "string list"
  isStreaming :: bool
  error :: "string option"
  streamCleanupRef :: bool
  cleanups :: nat

definition initialState :: AgentRunState where
  "initialState =
     \<lparr>byId = Map.empty, order = [], isStreaming = False, error = None,
      streamCleanupRef = False, cleanups = 0\<rparr>"

text \<open>\<open>Array.prototype.indexOf\<close>: the first index of the element, or \<open>-1\<close>.\<close>

fun indexOf :: "'a list \<Rightarrow> 'a \<Rightarrow> int" where
  "indexOf [] x = -1"
| "indexOf (y # ys) x =
     (if y = x then 0 else (let i = indexOf ys x in if i < 0 then -1 else i + 1))"

text \<open>
  The object spread \<open>{ ...prevState.byId[id], ...message }\<close>: spreading \<open>undefined\<close>
  contributes nothing; otherwise the keys of \<open>message\<close> are written over those of the old
  record.
\<close>

definition spread :: "AgentMessage option \<Rightarrow> AgentMessage \<Rightarrow> AgentMessage" where
  "spread old message =
     (case old of
        None \<Rightarrow> message
      | Some m \<Rightarrow> \<lparr>message_id = message_id message, props = props m ++ props message\<rparr>)"

definition updateMessage :: "AgentMessage \<Rightarrow> AgentRunState \<Rightarrow> AgentRunState" where
  "updateMessage message prevState =
     (let existingIndex = indexOf (order prevState) (message_id message) in
      if existingIndex \<ge> 0 then
        prevState\<lparr>byId := (byId prevState)
          (message_id message \<mapsto> spread (byId prevState (message_id message)) message)\<rparr>
      else
        prevState\<lparr>byId := (byId prevState)(message_id message \<mapsto> message),
                  order := order prevState @ [message_id message]\<rparr>)"

definition stopStreaming :: "AgentRunState \<Rightarrow> AgentRunState" where
  "stopStreaming st =
     (let st' = (if streamCleanupRef st
                 then st\<lparr>streamCleanupRef := False, cleanups := cleanups st + 1\<rparr>
                 else st)
      in st'\<lparr>isStreaming := False\<rparr>)"

definition clear :: "AgentRunState \<Rightarrow> AgentRunState" where
  "clear st =
     (stopStreaming st)\<lparr>byId := Map.empty, order := [], isStreaming := False, error := None\<rparr>"

text \<open>The list handed to the rendering layer: \<open>order.map(id => byId[id]).filter(Boolean)\<close>.\<close>

definition messages :: "AgentRunState \<Rightarrow> AgentMessage list" where
  "messages st = List.map_filter (byId st) (order st)"

datatype store_op = UpdateMessage AgentMessage | Clear

fun apply_store_op :: "AgentRunState \<Rightarrow> store_op \<Rightarrow> AgentRunState" where
  "apply_store_op st (UpdateMessage m) = updateMessage m st"
| "apply_store_op st Clear = clear st"

definition run_store_ops :: "store_op list \<Rightarrow> AgentRunState" where
  "run_store_ops ops = foldl apply_store_op initialState ops"

text \<open>The invariant of the store: the order list enumerates the keys of the map once each.\<close>

definition store_inv :: "AgentRunState \<Rightarrow> bool" where
  "store_inv s \<longleftrightarrow> distinct (order s) \<and> set (order s) = dom (byId s)"

section \<open>Replay Engine: the share page\<close>

record SharedMessage =
  msg_id :: string
  msg_type :: string
  content :: string
  timestamp :: string

text \<open>
  The playback state of \<open>SharePage\<close>. \<open>streamingTimer\<close> says whether the interval held by
  \<open>streamingIntervalRef\<close> is still running; \<open>charIndex\<close> is the counter captured by the
  \<open>streamMessage\<close> closure, \<open>revealing\<close> the message it captured, and \<open>advancePending\<close>
  the number of settle time-outs that have been set and have not fired yet.
\<close>

record ReplayState =
  isPlaying :: bool
  currentMessageIndex :: int
  playbackSpeed :: nat
  streamingText :: string
  isStreamingComplete :: bool
  streamingTimer :: bool
  charIndex :: nat
  revealing :: "SharedMessage option"
  advancePending :: nat

definition initialReplay :: ReplayState where
  "initialReplay =
     \<lparr>isPlaying = False, currentMessageIndex = 0, playbackSpeed = 1, streamingText = [],
      isStreamingComplete = False, streamingTimer = False, charIndex = 0, revealing = None,
      advancePending = 0\<rparr>"

definition pausePlayback :: "ReplayState \<Rightarrow> ReplayState" where
  "pausePlayback st = st\<lparr>isPlaying := False, streamingTimer := False\<rparr>"

definition resetPlayback :: "ReplayState \<Rightarrow> ReplayState" where
  "resetPlayback st =
     st\<lparr>isPlaying := False, currentMessageIndex := 0, streamingText := [],
        isStreamingComplete := False, streamingTimer := False\<rparr>"

text \<open>
  \<open>skipToMessage\<close>: nothing happens while the thread is not loaded; otherwise
  \<open>Math.max(0, Math.min(index, thread.messages.length - 1))\<close>.
\<close>

definition skipToMessage :: "SharedMessage list option \<Rightarrow> int \<Rightarrow> ReplayState \<Rightarrow> ReplayState" where
  "skipToMessage thread index st =
     (case thread of
        None \<Rightarrow> st
      | Some msgs \<Rightarrow>
          (pausePlayback st)
            \<lparr>currentMessageIndex := max 0 (min index (int (length msgs) - 1)),
             streamingText := [],
             isStreamingComplete := False\<rparr>)"

section \<open>Strings: \<open>includes\<close>, \<open>trim\<close>\<close>

text \<open>\<open>String.prototype.includes\<close>: the pattern occurs at some position of the text.\<close>

fun includes_str :: "string \<Rightarrow> string \<Rightarrow> bool" where
  "includes_str [] pat = (pat = [])"
| "includes_str (c # cs) pat = (prefix pat (c # cs) \<or> includes_str cs pat)"

text \<open>
  The white space and line terminators that \<open>String.prototype.trim\<close> removes, among the
  code units below 256: tab, line feed, vertical tab, form feed, carriage return, space
  and no-break space.
\<close>

definition isWhiteSpace :: "char \<Rightarrow> bool" where
  "isWhiteSpace c \<longleftrightarrow>
     c \<in> {CHR 0x09, CHR 0x0A, CHR 0x0B, CHR 0x0C, CHR 0x0D, CHR 0x20, CHR 0xA0}"

definition trim :: "string \<Rightarrow> string" where
  "trim s = rev (dropWhile isWhiteSpace (rev (dropWhile isWhiteSpace s)))"

section \<open>Stream Transport: \<open>streamAgent\<close> and \<open>stopAgent\<close>\<close>

text \<open>
  The module state: \<open>activeStreams\<close> maps a run id to its \<open>EventSource\<close> (a handle),
  \<open>nonRunningAgentRuns\<close> is the set of run ids known to be finished, \<open>closedSources\<close> holds
  the handles on which \<open>close()\<close> has been called, \<open>created\<close> counts the \<open>EventSource\<close>
  objects constructed so far (the next handle), and \<open>lastStreamMessage\<close> is the
  time stamp kept on \<open>window\<close>. Two logs record what leaves the module: \<open>calls\<close>, the
  invocations of the caller's callbacks with the run id they were given for, and
  \<open>requests\<close>, the HTTP requests sent to the backend.
\<close>

datatype call = OnMessage string | OnError string | OnClose

datatype request = StopRequest string string

record Transport =
  activeStreams :: "string \<rightharpoonup> nat"
  nonRunningAgentRuns :: "string set"
  closedSources :: "nat set"
  created :: nat
  lastStreamMessage :: nat
  calls :: "(string \<times> call) list"
  requests :: "request list"

definition initialTransport :: Transport where
  "initialTransport =
     \<lparr>activeStreams = Map.empty, nonRunningAgentRuns = {}, closedSources = {}, created = 0,
      lastStreamMessage = 0, calls = [], requests = []\<rparr>"

text \<open>
  A statement of the handler either completes or throws; the thrown value is modelled by
  its message. \<open>steps\<close> runs statements in sequence and stops at the first one that throws.
  The caller's callbacks are opaque: \<open>cb c = Some e\<close> says that the invocation \<open>c\<close> throws
  \<open>e\<close>.
\<close>

type_synonym step = "Transport \<Rightarrow> Transport \<times> string option"

fun steps :: "step list \<Rightarrow> step" where
  "steps [] st = (st, None)"
| "steps (f # fs) st =
     (case f st of
        (st', Some e) \<Rightarrow> (st', Some e)
      | (st', None) \<Rightarrow> steps fs st')"

definition invoke :: "(call \<Rightarrow> string option) \<Rightarrow> string \<Rightarrow> call \<Rightarrow> step" where
  "invoke cb agentRunId c st = (st\<lparr>calls := calls st @ [(agentRunId, c)]\<rparr>, cb c)"

definition addNonRunning :: "string \<Rightarrow> step" where
  "addNonRunning agentRunId st =
     (st\<lparr>nonRunningAgentRuns := insert agentRunId (nonRunningAgentRuns st)\<rparr>, None)"

definition closeSource :: "nat \<Rightarrow> step" where
  "closeSource es st = (st\<lparr>closedSources := insert es (closedSources st)\<rparr>, None)"

definition deleteActive :: "string \<Rightarrow> step" where
  "deleteActive agentRunId st = (st\<lparr>activeStreams := (activeStreams st)(agentRunId := None)\<rparr>, None)"

text \<open>
  The body of the \<open>try\<close> block of \<open>eventSource.onmessage\<close> after the heartbeat and
  empty-message checks: the run-not-found branch, the completion branch, the
  thread-run-end branch and the pass-through, in the order of the source.
\<close>

definition onmessage_body :: "(call \<Rightarrow> string option) \<Rightarrow> string \<Rightarrow> nat \<Rightarrow> string \<Rightarrow> step" where
  \<open>onmessage_body cb agentRunId eventSource rawData =
     (if includes_str rawData ''Agent run'' \<and> includes_str rawData ''not found in active runs'' then
        steps [addNonRunning agentRunId,
               invoke cb agentRunId (OnError ''Agent run not found in active runs''),
               closeSource eventSource,
               deleteActive agentRunId,
               invoke cb agentRunId OnClose]
      else if includes_str rawData ''"type":"status"'' \<and> includes_str rawData ''"status":"completed"'' then
        steps ((if includes_str rawData ''Run data not available for streaming'' \<or>
                   includes_str rawData ''Stream ended with status: completed''
                then [addNonRunning agentRunId] else []) @
              [invoke cb agentRunId (OnMessage rawData),
               closeSource eventSource,
               deleteActive agentRunId,
               invoke cb agentRunId OnClose])
      else if includes_str rawData ''"type":"status"'' \<and>
              includes_str rawData ''"status_type":"thread_run_end"'' then
        steps [addNonRunning agentRunId,
               invoke cb agentRunId (OnMessage rawData),
               closeSource eventSource,
               deleteActive agentRunId,
               invoke cb agentRunId OnClose]
      else
        steps [invoke cb agentRunId (OnMessage rawData)])\<close>

text \<open>
  \<open>eventSource.onmessage\<close> for the stream of run \<open>agentRunId\<close>, at time \<open>now\<close>. A heartbeat
  and an empty message return early; an exception of the body is passed to \<open>onError\<close>
  by the \<open>catch\<close> block. The result holds the exception that leaves the handler, if any.
\<close>

definition onmessage :: "(call \<Rightarrow> string option) \<Rightarrow> nat \<Rightarrow> string \<Rightarrow> nat \<Rightarrow> string \<Rightarrow> step" where
  \<open>onmessage cb now agentRunId eventSource rawData st =
     (let st1 = st\<lparr>lastStreamMessage := now\<rparr> in
      if includes_str rawData ''"type":"ping"'' then (st1\<lparr>lastStreamMessage := now\<rparr>, None)
      else if rawData = [] \<or> trim rawData = [] then (st1, None)
      else
        (case onmessage_body cb agentRunId eventSource rawData st1 of
           (st2, Some e) \<Rightarrow> invoke cb agentRunId (OnError e) st2
         | (st2, None) \<Rightarrow> (st2, None)))\<close>

text \<open>
  \<open>streamAgent\<close>, with the setup it starts run to its end. \<open>token\<close> is the access token of
  the session, if there is one, and \<open>url_ok\<close> says whether \<open>new URL\<close> accepts the stream
  address built from \<open>API_URL\<close>. An exception inside the asynchronous \<open>setupStream\<close>
  rejects a promise that nobody awaits, so it never reaches the caller.
\<close>

definition closeExisting :: "string \<Rightarrow> Transport \<Rightarrow> Transport" where
  "closeExisting agentRunId st =
     (case activeStreams st agentRunId of
        None \<Rightarrow> st
      | Some existingStream \<Rightarrow>
          st\<lparr>closedSources := insert existingStream (closedSources st),
             activeStreams := (activeStreams st)(agentRunId := None)\<rparr>)"

definition setupStream :: "(call \<Rightarrow> string option) \<Rightarrow> string option \<Rightarrow> bool \<Rightarrow> string \<Rightarrow> step" where
  "setupStream cb token url_ok agentRunId st =
     (case token of
        None \<Rightarrow>
          steps [invoke cb agentRunId (OnError ''Authentication required''),
                 invoke cb agentRunId OnClose] st
      | Some access_token \<Rightarrow>
          if \<not> url_ok then (st, Some ''Invalid URL'')
          else
            (st\<lparr>created := created st + 1,
                activeStreams := (activeStreams st)(agentRunId \<mapsto> created st)\<rparr>, None))"

definition streamAgent :: "(call \<Rightarrow> string option) \<Rightarrow> string option \<Rightarrow> bool \<Rightarrow> string \<Rightarrow> Transport \<Rightarrow> Transport" where
  "streamAgent cb token url_ok agentRunId st =
     fst (setupStream cb token url_ok agentRunId (closeExisting agentRunId st))"

text \<open>
  \<open>stopAgent\<close>. \<open>token\<close> is the access token of the session and \<open>response\<close> the outcome of
  the \<open>fetch\<close>: \<open>None\<close> when the request itself fails with a network error, otherwise the
  \<open>ok\<close> flag of the response with its status text. The result holds the error the promise
  is rejected with, if any.
\<close>

definition stopAgent :: "string option \<Rightarrow> (bool \<times> string) option \<Rightarrow> string \<Rightarrow> step" where
  "stopAgent token response agentRunId st =
     (let st1 = closeExisting agentRunId
                  (st\<lparr>nonRunningAgentRuns := insert agentRunId (nonRunningAgentRuns st)\<rparr>) in
      case token of
        None \<Rightarrow> (st1, Some ''No access token available'')
      | Some access_token \<Rightarrow>
          (let st2 = st1\<lparr>requests := requests st1 @ [StopRequest agentRunId access_token]\<rparr> in
           case response of
             None \<Rightarrow> (st2, Some ''Failed to fetch'')
           | Some (ok, statusText) \<Rightarrow>
               if \<not> ok then (st2, Some (''Error stopping agent: '' @ statusText))
               else (st2, None)))"

text \<open>Concrete events and states used to evaluate the transport.\<close>

definition no_throw :: "call \<Rightarrow> string option" where
  "no_throw c = None"

definition ping_in_content :: string where
  \<open>ping_in_content = ''{"type":"assistant","content":"frame "type":"ping" seen"}''\<close>

definition bare_completed :: string where
  \<open>bare_completed = ''{"type":"status","status":"completed"}''\<close>

definition one_stream :: Transport where
  "one_stream = streamAgent no_throw (Some ''tok'') True ''run1'' initialTransport"

definition stopped_once :: Transport where
  "stopped_once = fst (stopAgent (Some ''tok'') (Some (True, ''OK'')) ''run1'' initialTransport)"

definition stopped_twice :: Transport where
  "stopped_twice = fst (stopAgent (Some ''tok'') (Some (True, ''OK'')) ''run1'' stopped_once)"

section \<open>Replay Engine: reveal and attachments\<close>

text \<open>
  \<open>startPlayback\<close> with the \<open>playNextMessage\<close> it calls: nothing happens without a thread
  or while playing; otherwise the message at the current index is captured and the reveal
  interval started, or, at the end of the history, playback stops.
\<close>

definition messageAt :: "SharedMessage list \<Rightarrow> int \<Rightarrow> SharedMessage option" where
  "messageAt msgs i = (if 0 \<le> i \<and> i < int (length msgs) then Some (msgs ! nat i) else None)"

definition startPlayback :: "SharedMessage list option \<Rightarrow> ReplayState \<Rightarrow> ReplayState" where
  "startPlayback thread st =
     (case thread of
        None \<Rightarrow> st
      | Some msgs \<Rightarrow>
          if isPlaying st then st
          else if currentMessageIndex st < int (length msgs) then
            st\<lparr>isPlaying := True, streamingText := [], isStreamingComplete := False,
               charIndex := 0, revealing := messageAt msgs (currentMessageIndex st),
               streamingTimer := True\<rparr>
          else
            st\<lparr>isPlaying := False, isStreamingComplete := True\<rparr>)"

text \<open>
  One firing of the reveal interval, \<open>streamMessage\<close>: the next character is revealed with
  \<open>content.substring(0, charIndex + 1)\<close>, or, when all are, the reveal is complete, the
  interval is cleared and the settle time-out is set. A cleared interval does not fire.
\<close>

definition streamMessage :: "ReplayState \<Rightarrow> ReplayState" where
  "streamMessage st =
     (if \<not> streamingTimer st then st
      else case revealing st of
        None \<Rightarrow> st
      | Some message \<Rightarrow>
          if charIndex st < length (content message) then
            st\<lparr>streamingText := take (charIndex st + 1) (content message),
               charIndex := charIndex st + 1\<rparr>
          else
            st\<lparr>isStreamingComplete := True, streamingTimer := False,
               advancePending := advancePending st + 1\<rparr>)"

text \<open>The settle time-out fires: the index advances and the reveal state is cleared.\<close>

definition advance :: "ReplayState \<Rightarrow> ReplayState" where
  "advance st =
     (if advancePending st = 0 then st
      else st\<lparr>advancePending := advancePending st - 1,
              currentMessageIndex := currentMessageIndex st + 1,
              streamingText := [], isStreamingComplete := False\<rparr>)"

text \<open>
  The regular expression \<open>/\[Uploaded File: (.*?)\]/\<close>. The dot matches every character
  but a line terminator (line feed and carriage return among the code units below 256),
  and the lazy star stops at the first closing bracket. \<open>lazy_to_bracket\<close> matches
  \<open>(.*?)\]\<close> at the start of a text and returns the captured group with the rest of the
  text; \<open>match_marker\<close> matches the whole expression at the start of a text.
\<close>

definition isLineTerminator :: "char \<Rightarrow> bool" where
  "isLineTerminator c \<longleftrightarrow> c = CHR 0x0A \<or> c = CHR 0x0D"

fun lazy_to_bracket :: "string \<Rightarrow> (string \<times> string) option" where
  "lazy_to_bracket [] = None"
| "lazy_to_bracket (c # cs) =
     (if c = CHR '']'' then Some ([], cs)
      else if isLineTerminator c then None
      else (case lazy_to_bracket cs of
              None \<Rightarrow> None
            | Some (p, r) \<Rightarrow> Some (c # p, r)))"

definition marker_open :: string where
  "marker_open = ''[Uploaded File: ''"

definition match_marker :: "string \<Rightarrow> (string \<times> string) option" where
  "match_marker s =
     (if prefix marker_open s then lazy_to_bracket (drop (length marker_open) s) else None)"

lemma lazy_to_bracket_shorter: "lazy_to_bracket s = Some (p, r) \<Longrightarrow> length r < length s"
  by (induction s arbitrary: p r) (auto split: if_splits option.splits)

lemma match_marker_shorter: "match_marker s = Some (p, r) \<Longrightarrow> length r < length s"
  by (auto simp: match_marker_def split: if_splits dest!: lazy_to_bracket_shorter)

text \<open>
  \<open>text.match(re)\<close> with the global flag returns the matched substrings from left to
  right, each search starting where the last match ended; \<open>text.replace(re, '')\<close> removes
  the same substrings.
\<close>

function match_all :: "string \<Rightarrow> string list" where
  "match_all [] = []"
| "match_all (c # cs) =
     (case match_marker (c # cs) of
        Some (p, r) \<Rightarrow> (marker_open @ p @ '']'') # match_all r
      | None \<Rightarrow> match_all cs)"
  by pat_completeness auto
termination
  by (relation "measure length") (auto dest: match_marker_shorter)

function replace_all :: "string \<Rightarrow> string" where
  "replace_all [] = []"
| "replace_all (c # cs) =
     (case match_marker (c # cs) of
        Some (p, r) \<Rightarrow> replace_all r
      | None \<Rightarrow> c # replace_all cs)"
  by pat_completeness auto
termination
  by (relation "measure length") (auto dest: match_marker_shorter)

text \<open>
  \<open>parseAttachments\<close>: the first group of every match, empty ones dropped by
  \<open>filter(Boolean)\<close>, and the text without the matches, trimmed.
\<close>

definition capture1 :: "string \<Rightarrow> string option" where
  "capture1 m = map_option fst (match_marker m)"

definition parseAttachments :: "string \<Rightarrow> string \<times> string list" where
  "parseAttachments text =
     (let matches = match_all text;
          paths = filter (\<lambda>p. p \<noteq> []) (List.map_filter capture1 matches);
          clean = trim (replace_all text)
      in (clean, paths))"

text \<open>
  The text that the page renders for the message at position \<open>index\<close> of the visible
  slice: \<open>shouldShowStreaming ? streamingText : clean\<close>.
\<close>

definition displayContent :: "ReplayState \<Rightarrow> nat \<Rightarrow> SharedMessage \<Rightarrow> string" where
  "displayContent st index message =
     (let isCurrentMessage = (int index = currentMessageIndex st);
          shouldShowStreaming = (isCurrentMessage \<and> isPlaying st \<and> \<not> isStreamingComplete st);
          clean = fst (parseAttachments (content message))
      in if shouldShowStreaming then streamingText st else clean)"

text \<open>
  A text holds an unterminated marker when the opening \<open>[Uploaded File: \<close> occurs at a
  position where the expression does not match, that is, with no closing bracket after it
  on its line.
\<close>

fun unterminated_marker :: "string \<Rightarrow> bool" where
  "unterminated_marker [] = False"
| "unterminated_marker (c # cs) =
     ((prefix marker_open (c # cs) \<and> match_marker (c # cs) = None) \<or> unterminated_marker cs)"

definition attachment_message :: SharedMessage where
  "attachment_message =
     \<lparr>msg_id = ''m1'', msg_type = ''user'', content = ''See [Uploaded File: a.txt]'',
      timestamp = ''t''\<rparr>"

section \<open>JavaScript operations\<close>

text \<open>
  Truthiness, \<open>typeof\<close>, and the \<open>||\<close> operator on values that are already computed.
\<close>

definition truthy :: "jsval \<Rightarrow> bool" where
  "truthy v =
     (case v of
        JUndefined \<Rightarrow> False
      | JNull \<Rightarrow> False
      | JBool b \<Rightarrow> b
      | JNum n \<Rightarrow> n \<noteq> 0
      | JStr s \<Rightarrow> s \<noteq> []
      | JArr xs \<Rightarrow> True
      | JObj ps \<Rightarrow> True)"

definition nullish :: "jsval \<Rightarrow> bool" where
  "nullish v \<longleftrightarrow> v = JUndefined \<or> v = JNull"

definition typeof :: "jsval \<Rightarrow> string" where
  "typeof v =
     (case v of
        JUndefined \<Rightarrow> ''undefined''
      | JNull \<Rightarrow> ''object''
      | JBool b \<Rightarrow> ''boolean''
      | JNum n \<Rightarrow> ''number''
      | JStr s \<Rightarrow> ''string''
      | JArr xs \<Rightarrow> ''object''
      | JObj ps \<Rightarrow> ''object'')"

definition or_js :: "jsval \<Rightarrow> jsval \<Rightarrow> jsval" where
  "or_js a b = (if truthy a then a else b)"

text \<open>
  An expression either yields a value or throws; \<open>None\<close> stands for the exception.
  \<open>getP v k\<close> is the property read \<open>v.k\<close>: a \<open>TypeError\<close> on \<open>undefined\<close> and \<open>null\<close>, the
  own property of an object, and \<open>undefined\<close> on a primitive or an array, since none of
  the names the code reads is a property of those. \<open>getOpt\<close> is \<open>e?.k\<close> and \<open>orE\<close> is
  \<open>a || b\<close> with \<open>b\<close> evaluated only when \<open>a\<close> is falsy.
\<close>

definition getP :: "jsval \<Rightarrow> string \<Rightarrow> jsval option" where
  "getP v k =
     (case v of
        JUndefined \<Rightarrow> None
      | JNull \<Rightarrow> None
      | JObj ps \<Rightarrow> Some (case map_of ps k of None \<Rightarrow> JUndefined | Some x \<Rightarrow> x)
      | _ \<Rightarrow> Some JUndefined)"

definition getOpt :: "jsval option \<Rightarrow> string \<Rightarrow> jsval option" where
  "getOpt e k = do { v \<leftarrow> e; if nullish v then Some JUndefined else getP v k }"

definition orE :: "jsval option \<Rightarrow> jsval option \<Rightarrow> jsval option" where
  "orE a b = do { x \<leftarrow> a; if truthy x then Some x else b }"

section \<open>Tool Event Model: \<open>getToolModel\<close>\<close>

text \<open>
  What \<open>getToolModel\<close> takes from its environment: \<open>JSON.parse\<close> (\<open>None\<close> when it throws a
  \<open>SyntaxError\<close>; \<open>JSON.parse\<close> itself converts its argument to a string) and the current
  time as an ISO string.
\<close>

record tool_env =
  JSON_parse :: "jsval \<Rightarrow> jsval option"
  nowISO :: string

text \<open>\<open>parseMaybeJSON\<close>: \<open>undefined\<close> for a falsy argument and for one that does not parse.\<close>

definition parseMaybeJSON :: "(jsval \<Rightarrow> jsval option) \<Rightarrow> jsval \<Rightarrow> jsval" where
  "parseMaybeJSON parse raw =
     (if \<not> truthy raw then JUndefined
      else (case parse raw of None \<Rightarrow> JUndefined | Some v \<Rightarrow> v))"

record ToolModel =
  tm_id :: jsval
  tm_type :: jsval
  tag :: jsval
  attrs :: jsval
  result :: jsval
  tm_error :: jsval
  logs :: jsval
  path :: jsval
  workspace :: jsval
  mode :: jsval
  created_at :: jsval

text \<open>
  The constant \<open>c\<close> of \<open>getToolModel\<close>:
  \<open>typeof msg._content === 'string' ? { text: msg._content } : (msg._content || contentObj || {})\<close>.
\<close>

definition toolContent :: "tool_env \<Rightarrow> jsval \<Rightarrow> jsval option" where
  "toolContent env msg = do {
     raw \<leftarrow> getP msg ''content'';
     let contentObj = parseMaybeJSON (JSON_parse env) raw;
     pc \<leftarrow> getP msg ''_content'';
     Some (if typeof pc = ''string'' then JObj [(''text'', pc)]
           else or_js (or_js pc contentObj) (JObj []))
   }"

definition getToolModel :: "tool_env \<Rightarrow> jsval \<Rightarrow> ToolModel option" where
  "getToolModel env msg = do {
     c \<leftarrow> toolContent env msg;
     v_id \<leftarrow> getP msg ''id'';
     v_type \<leftarrow> getP msg ''type'';
     v_tag \<leftarrow> orE (getP c ''tag'') (getP msg ''tool'');
     v_attrs \<leftarrow> orE (getP c ''attrs'') (getP msg ''arguments'');
     v_result \<leftarrow> orE (getP c ''result'') (getP msg ''output'');
     v_error \<leftarrow> orE (getP c ''error'') (getP msg ''error'');
     v_logs \<leftarrow> orE (getP c ''logs'') (getOpt (getP c ''result'') ''logs'');
     v_path \<leftarrow> orE (getP c ''path'') (getOpt (getP c ''result'') ''path'');
     v_workspace \<leftarrow> orE (getP c ''workspace'') (getOpt (getP c ''result'') ''workspace'');
     v_mode \<leftarrow> orE (getP c ''mode'') (getOpt (getP c ''result'') ''mode'');
     v_created \<leftarrow> orE (getP msg ''timestamp'') (Some (JStr (nowISO env)));
     Some \<lparr>tm_id = v_id, tm_type = v_type, tag = v_tag, attrs = v_attrs, result = v_result,
           tm_error = v_error, logs = v_logs, path = v_path, workspace = v_workspace,
           mode = v_mode, created_at = v_created\<rparr>
   }"

text \<open>
  An environment for concrete evaluation. Its \<open>JSON.parse\<close> knows the one JSON text of
  the examples; every other argument it is applied to there is not JSON.
\<close>

definition example_json :: string where
  \<open>example_json = ''{"tag":"file-write","result":{"ok":true,"path":"out.txt"}}''\<close>

definition example_parse :: "jsval \<Rightarrow> jsval option" where
  "example_parse v =
     (if v = JStr example_json
      then Some (JObj [(''tag'', JStr ''file-write''),
                       (''result'', JObj [(''ok'', JBool True), (''path'', JStr ''out.txt'')])])
      else None)"

definition example_tool_env :: tool_env where
  "example_tool_env = \<lparr>JSON_parse = example_parse, nowISO = ''2025-01-01T00:00:00.000Z''\<rparr>"

definition plain_tool_message :: jsval where
  "plain_tool_message =
     JObj [(''id'', JStr ''t1''), (''type'', JStr ''tool_start''),
           (''content'', JStr ''plain text'')]"

definition result_tool_message :: jsval where
  "result_tool_message =
     JObj [(''id'', JStr ''t2''), (''type'', JStr ''tool_result''),
           (''content'', JStr example_json)]"

text \<open>
  The value of the read \<open>v.k\<close> where it does not throw, and of \<open>v?.k\<close> everywhere.
\<close>

definition prop_of :: "jsval \<Rightarrow> string \<Rightarrow> jsval" where
  "prop_of v k =
     (case v of
        JObj ps \<Rightarrow> (case map_of ps k of None \<Rightarrow> JUndefined | Some x \<Rightarrow> x)
      | _ \<Rightarrow> JUndefined)"

section \<open>Message Normalizer: regular expressions\<close>

text \<open>
  \<open>split_at pat s\<close> cuts \<open>s\<close> at the first occurrence of \<open>pat\<close> and returns the text before
  it and the text after it.
\<close>

fun split_at :: "string \<Rightarrow> string \<Rightarrow> (string \<times> string) option" where
  "split_at pat [] = (if pat = [] then Some ([], []) else None)"
| "split_at pat (c # cs) =
     (if prefix pat (c # cs) then Some ([], drop (length pat) (c # cs))
      else (case split_at pat cs of
              None \<Rightarrow> None
            | Some (b, a) \<Rightarrow> Some (c # b, a)))"

text \<open>
  \<open>/<tool_result[^>]*>(.*?)<\/tool_result>/gs\<close>. \<open>match_tool_result\<close> matches the expression
  at the start of a text and returns the matched text with the rest: the opening runs to
  the first \<open>>\<close>, and with the \<open>s\<close> flag the lazy group runs to the first closing tag.
  With the \<open>g\<close> flag \<open>content.match\<close> returns the matched texts from left to right, without
  their groups.
\<close>

definition match_tool_result :: "string \<Rightarrow> (string \<times> string) option" where
  "match_tool_result s =
     (if prefix ''<tool_result'' s then
        (let r = drop (length ''<tool_result'') s;
             opening = takeWhile (\<lambda>c. c \<noteq> CHR ''>'') r
         in case dropWhile (\<lambda>c. c \<noteq> CHR ''>'') r of
              [] \<Rightarrow> None
            | g # body \<Rightarrow>
                (case split_at ''</tool_result>'' body of
                   None \<Rightarrow> None
                 | Some (inner, rest) \<Rightarrow>
                     Some (''<tool_result'' @ opening @ ''>'' @ inner @ ''</tool_result>'', rest)))
      else None)"

lemma split_at_shorter: "split_at pat s = Some (b, a) \<Longrightarrow> length a \<le> length s"
  by (induction s arbitrary: b a) (auto split: if_splits option.splits)

lemma match_tool_result_shorter:
  assumes "match_tool_result s = Some (m, rest)"
  shows "length rest < length s"
proof -
  from assms obtain g body inner where p: "prefix ''<tool_result'' s"
    and d: "dropWhile (\<lambda>c. c \<noteq> CHR ''>'') (drop (length ''<tool_result'') s) = g # body"
    and sp: "split_at ''</tool_result>'' body = Some (inner, rest)"
    by (auto simp: match_tool_result_def Let_def split: if_splits list.splits option.splits)
  have "length rest \<le> length body"
    using sp by (rule split_at_shorter)
  moreover have "length (g # body) \<le> length (drop (length ''<tool_result'') s)"
    unfolding d [symmetric] by (rule length_dropWhile_le)
  ultimately show ?thesis by simp
qed

function match_all_tool_result :: "string \<Rightarrow> string list" where
  "match_all_tool_result [] = []"
| "match_all_tool_result (c # cs) =
     (case match_tool_result (c # cs) of
        Some (m, r) \<Rightarrow> m # match_all_tool_result r
      | None \<Rightarrow> match_all_tool_result cs)"
  by pat_completeness auto
termination
  by (relation "measure length") (auto dest: match_tool_result_shorter)

text \<open>
  \<open>/<([a-zA-Z-]+)/\<close>: the first \<open><\<close> that a letter or a hyphen follows, with the longest
  run of them as the group; and \<open>String.prototype.replace('-', '_')\<close>, which replaces the
  first hyphen only.
\<close>

definition isTagChar :: "char \<Rightarrow> bool" where
  "isTagChar c \<longleftrightarrow>
     (let n = (of_char c :: nat)
      in (97 \<le> n \<and> n \<le> 122) \<or> (65 \<le> n \<and> n \<le> 90) \<or> c = CHR ''-'')"

fun xml_match :: "string \<Rightarrow> string option" where
  "xml_match [] = None"
| "xml_match (c # cs) =
     (if c = CHR ''<'' \<and> takeWhile isTagChar cs \<noteq> [] then Some (takeWhile isTagChar cs)
      else xml_match cs)"

fun replace_first_hyphen :: "string \<Rightarrow> string" where
  "replace_first_hyphen [] = []"
| "replace_first_hyphen (c # cs) =
     (if c = CHR ''-'' then CHR ''_'' # cs else c # replace_first_hyphen cs)"

text \<open>
  \<open>/"function_name":\s*"([^"]+)"/\<close>: the key, any white space, and a non-empty run of
  characters between two double quotes, which is the group.
\<close>

definition function_name_key :: string where
  \<open>function_name_key = ''"function_name":''\<close>

definition func_match_at :: "string \<Rightarrow> string option" where
  "func_match_at s =
     (if prefix function_name_key s then
        (case dropWhile isWhiteSpace (drop (length function_name_key) s) of
           [] \<Rightarrow> None
         | q # r \<Rightarrow>
             if q = CHR 0x22 \<and> takeWhile (\<lambda>c. c \<noteq> CHR 0x22) r \<noteq> []
                \<and> dropWhile (\<lambda>c. c \<noteq> CHR 0x22) r \<noteq> []
             then Some (takeWhile (\<lambda>c. c \<noteq> CHR 0x22) r)
             else None)
      else None)"

fun func_match :: "string \<Rightarrow> string option" where
  "func_match [] = None"
| "func_match (c # cs) =
     (case func_match_at (c # cs) of
        Some name \<Rightarrow> Some name
      | None \<Rightarrow> func_match cs)"

section \<open>Message Normalizer: \<open>normalizeMessage\<close>\<close>

text \<open>
  The environment of the normalizer adds \<open>JSON.stringify\<close> (\<open>None\<close> when it returns
  \<open>undefined\<close>), \<open>generateId\<close> and the text that a caught exception is rendered to.
  \<open>generateId\<close> draws on the clock and on random numbers; every call site is executed at
  most once in a call of \<open>normalizeMessage\<close>, so its results are given by call site.
\<close>

datatype id_site =
    IdNull | IdCanonical | IdLegacy | IdWrapper | IdWrapperCatch
  | IdEscapedCall | IdEscapedResult | IdDetectCall | IdDetectResult | IdCatch

record js_env = tool_env +
  JSON_stringify :: "jsval \<Rightarrow> string option"
  generateId :: "id_site \<Rightarrow> string"
  errorText :: string

definition strV :: "string option \<Rightarrow> jsval" where
  "strV r = (case r of None \<Rightarrow> JUndefined | Some s \<Rightarrow> JStr s)"

text \<open>\<open>v !== false\<close>, the assignment \<open>obj.k = v\<close>, and the spread \<open>{ ...base, ...v }\<close> of an object.\<close>

definition notFalse :: "jsval \<Rightarrow> jsval" where
  "notFalse v = JBool (v \<noteq> JBool False)"

definition setP :: "jsval \<Rightarrow> string \<Rightarrow> jsval \<Rightarrow> jsval" where
  "setP obj k v = (case obj of JObj ps \<Rightarrow> JObj ((k, v) # ps) | _ \<Rightarrow> obj)"

definition spreadOver :: "(string \<times> jsval) list \<Rightarrow> jsval \<Rightarrow> jsval" where
  "spreadOver base v = (case v of JObj ps \<Rightarrow> JObj (ps @ base) | _ \<Rightarrow> JObj base)"

text \<open>\<open>parsed.hasOwnProperty(k)\<close>; it throws when \<open>hasOwnProperty\<close> is shadowed by a key.\<close>

definition hasOwn :: "jsval \<Rightarrow> string \<Rightarrow> bool option" where
  "hasOwn v k =
     (case v of
        JUndefined \<Rightarrow> None
      | JNull \<Rightarrow> None
      | JObj ps \<Rightarrow>
          if ''hasOwnProperty'' \<in> set (map fst ps) then None else Some (k \<in> set (map fst ps))
      | _ \<Rightarrow> Some False)"

text \<open>\<open>extractToolName\<close>: the metadata first, then the content, then \<open>'unknown'\<close>.\<close>

definition nameFromContent :: "jsval \<Rightarrow> jsval" where
  "nameFromContent cont =
     (case cont of
        JStr s \<Rightarrow>
          (case xml_match s of
             Some t \<Rightarrow> JStr (replace_first_hyphen t)
           | None \<Rightarrow>
               (case func_match s of
                  Some f \<Rightarrow> JStr f
                | None \<Rightarrow> JStr ''unknown''))
      | _ \<Rightarrow> JStr ''unknown'')"

definition extractToolName :: "js_env \<Rightarrow> jsval \<Rightarrow> jsval \<Rightarrow> jsval option" where
  "extractToolName env message cont = do {
     md \<leftarrow> getP message ''metadata'';
     name \<leftarrow> (if truthy md then do {
                 metadata \<leftarrow> (if typeof md = ''string'' then JSON_parse env md else Some md);
                 orE (getP metadata ''tool_name'') (getP metadata ''function_name'')
               } else Some JUndefined);
     Some (if truthy name then name else nameFromContent cont)
   }"

text \<open>
  \<open>parseToolMessage\<close>. \<open>wrapperResult\<close> is the inner \<open>try\<close> block of the wrapper branch and
  \<open>wrapperFallback\<close> its \<open>catch\<close> block; \<open>m1\<close> is \<open>match[1]\<close>, the second matched text or
  \<open>undefined\<close>. \<open>escapedResult\<close> is the \<open>try\<close> block of the escaped-JSON branch, with \<open>null\<close>
  for falling through. An exception that leaves \<open>parseToolMessage_try\<close> is caught by the
  outer \<open>catch\<close>, which returns \<open>null\<close>.
\<close>

definition idOr :: "js_env \<Rightarrow> id_site \<Rightarrow> jsval \<Rightarrow> jsval option" where
  "idOr env site message = orE (getP message ''id'') (Some (JStr (generateId env site)))"

definition wrapperResult :: "js_env \<Rightarrow> jsval \<Rightarrow> jsval \<Rightarrow> jsval \<Rightarrow> jsval option" where
  "wrapperResult env message cont m1 = do {
     resultData \<leftarrow> JSON_parse env m1;
     v_id \<leftarrow> idOr env IdWrapper message;
     v_tool \<leftarrow> orE (getP resultData ''tool'') (extractToolName env message cont);
     v_output \<leftarrow> orE (getP resultData ''output'') (Some resultData);
     v_success \<leftarrow> getP resultData ''success'';
     v_error \<leftarrow> getP resultData ''error'';
     v_timestamp \<leftarrow> getP message ''timestamp'';
     Some (JObj [(''id'', v_id), (''type'', JStr ''tool_result''), (''tool'', v_tool),
                 (''output'', v_output), (''success'', notFalse v_success),
                 (''error'', v_error), (''timestamp'', v_timestamp)])
   }"

definition wrapperFallback :: "js_env \<Rightarrow> jsval \<Rightarrow> jsval \<Rightarrow> jsval \<Rightarrow> jsval option" where
  "wrapperFallback env message cont m1 = do {
     v_id \<leftarrow> idOr env IdWrapperCatch message;
     v_tool \<leftarrow> extractToolName env message cont;
     v_timestamp \<leftarrow> getP message ''timestamp'';
     Some (JObj [(''id'', v_id), (''type'', JStr ''tool_result''), (''tool'', v_tool),
                 (''output'', m1), (''success'', JBool True), (''timestamp'', v_timestamp)])
   }"

definition escapedResult :: "js_env \<Rightarrow> jsval \<Rightarrow> jsval \<Rightarrow> jsval option" where
  "escapedResult env message cont = do {
     parsed \<leftarrow> JSON_parse env cont;
     v_type \<leftarrow> getP parsed ''type'';
     if v_type = JStr ''tool_call'' then do {
       v_id \<leftarrow> idOr env IdEscapedCall message;
       v_tool \<leftarrow> getP parsed ''tool'';
       v_arguments \<leftarrow> getP parsed ''arguments'';
       v_timestamp \<leftarrow> getP message ''timestamp'';
       Some (JObj [(''id'', v_id), (''type'', JStr ''tool_call''), (''tool'', v_tool),
                   (''arguments'', v_arguments), (''timestamp'', v_timestamp)])
     } else if v_type = JStr ''tool_result'' then do {
       v_id \<leftarrow> idOr env IdEscapedResult message;
       v_tool \<leftarrow> getP parsed ''tool'';
       v_output \<leftarrow> getP parsed ''output'';
       v_success \<leftarrow> getP parsed ''success'';
       v_error \<leftarrow> getP parsed ''error'';
       v_timestamp \<leftarrow> getP message ''timestamp'';
       Some (JObj [(''id'', v_id), (''type'', JStr ''tool_result''), (''tool'', v_tool),
                   (''output'', v_output), (''success'', v_success), (''error'', v_error),
                   (''timestamp'', v_timestamp)])
     } else Some JNull
   }"

definition parseToolMessage_try :: "js_env \<Rightarrow> jsval \<Rightarrow> jsval \<Rightarrow> jsval option" where
  "parseToolMessage_try env message cont =
     (case cont of
        JStr s \<Rightarrow>
          if includes_str s ''<tool_result>'' \<and> match_all_tool_result s \<noteq> [] then
            (let m1 = (case match_all_tool_result s of
                         m0 # m # ms \<Rightarrow> JStr m
                       | _ \<Rightarrow> JUndefined)
             in case wrapperResult env message cont m1 of
                  Some r \<Rightarrow> Some r
                | None \<Rightarrow> wrapperFallback env message cont m1)
          else if prefix ''{'' s \<or> includes_str s ''role:'' then
            Some (case escapedResult env message cont of None \<Rightarrow> JNull | Some r \<Rightarrow> r)
          else Some JNull
      | _ \<Rightarrow> Some JNull)"

definition parseToolMessage :: "js_env \<Rightarrow> jsval \<Rightarrow> jsval \<Rightarrow> jsval" where
  "parseToolMessage env message cont =
     (case parseToolMessage_try env message cont of None \<Rightarrow> JNull | Some r \<Rightarrow> r)"

text \<open>
  \<open>detectMessageType\<close>. \<open>detectCall\<close> and \<open>detectResult\<close> are its two \<open>try\<close> blocks, with
  \<open>null\<close> for falling through; \<open>parsed\<close> is \<open>typeof content === 'string' ? JSON.parse(content)
  : content\<close>. The calls of \<open>includes\<close> are outside the \<open>try\<close> blocks and throw when
  \<open>JSON.stringify\<close> has returned \<open>undefined\<close>.
\<close>

definition detectCall :: "js_env \<Rightarrow> jsval option \<Rightarrow> jsval option" where
  "detectCall env parsed_or_throw = do {
     parsed \<leftarrow> parsed_or_throw;
     v_type \<leftarrow> getP parsed ''type'';
     v_fn \<leftarrow> getP parsed ''function_name'';
     if v_type = JStr ''tool_call'' \<or> truthy v_fn then do {
       v_tool \<leftarrow> orE (getP parsed ''tool'') (getP parsed ''function_name'');
       v_arguments \<leftarrow> orE (getP parsed ''arguments'') (Some (JObj []));
       v_timestamp \<leftarrow> getP parsed ''timestamp'';
       Some (JObj [(''id'', JStr (generateId env IdDetectCall)), (''type'', JStr ''tool_call''),
                   (''tool'', v_tool), (''arguments'', v_arguments),
                   (''timestamp'', v_timestamp)])
     } else Some JNull
   }"

definition detectResult :: "js_env \<Rightarrow> jsval option \<Rightarrow> jsval option" where
  "detectResult env parsed_or_throw = do {
     parsed \<leftarrow> parsed_or_throw;
     v_type \<leftarrow> getP parsed ''type'';
     both \<leftarrow> (if v_type = JStr ''tool_result'' then Some True
              else do {
                s \<leftarrow> hasOwn parsed ''success'';
                if s then hasOwn parsed ''output'' else Some False
              });
     if both then do {
       v_tool \<leftarrow> orE (getP parsed ''tool'') (Some (JStr ''unknown''));
       v_output \<leftarrow> getP parsed ''output'';
       v_success \<leftarrow> getP parsed ''success'';
       v_error \<leftarrow> getP parsed ''error'';
       v_timestamp \<leftarrow> getP parsed ''timestamp'';
       Some (JObj [(''id'', JStr (generateId env IdDetectResult)),
                   (''type'', JStr ''tool_result''), (''tool'', v_tool),
                   (''output'', v_output), (''success'', v_success), (''error'', v_error),
                   (''timestamp'', v_timestamp)])
     } else Some JNull
   }"

definition detectMessageType :: "js_env \<Rightarrow> jsval \<Rightarrow> jsval option" where
  "detectMessageType env cont =
     (if \<not> truthy cont then Some JNull
      else
        (case (case cont of JStr s \<Rightarrow> Some s | _ \<Rightarrow> JSON_stringify env cont) of
           None \<Rightarrow> None
         | Some contentStr \<Rightarrow>
             (let parsed = (if typeof cont = ''string'' then JSON_parse env cont
                            else Some cont);
                  call = (if includes_str contentStr ''tool_call''
                             \<or> includes_str contentStr ''function_name''
                          then (case detectCall env parsed of None \<Rightarrow> JNull | Some r \<Rightarrow> r)
                          else JNull)
              in if call \<noteq> JNull then Some call
                 else if includes_str contentStr ''tool_result''
                         \<or> includes_str contentStr ''success''
                         \<or> includes_str contentStr ''output''
                 then Some (case detectResult env parsed of None \<Rightarrow> JNull | Some r \<Rightarrow> r)
                 else Some JNull)))"

text \<open>
  The branches of \<open>normalizeMessage\<close> that fill in \<open>normalized\<close>. A branch yields \<open>Inl r\<close>
  when it returns \<open>r\<close> from the function at once and \<open>Inr n\<close> when it goes on to the
  metadata with the record \<open>n\<close>.
\<close>

definition canonicalTypes :: "string list" where
  "canonicalTypes =
     [''user'', ''assistant'', ''tool_call'', ''tool_result'', ''tool_start'', ''tool_error'',
      ''status'']"

definition statusBranch :: "jsval \<Rightarrow> jsval \<Rightarrow> jsval option" where
  "statusBranch message normalized = do {
     v_status_type \<leftarrow> orE (getP message ''status_type'') (getP message ''status'');
     v_message \<leftarrow> orE (getP message ''message'') (getP message ''content'');
     st \<leftarrow> getP message ''status_type'';
     let n = setP (setP (setP normalized ''type'' (JStr ''status''))
                        ''status_type'' v_status_type) ''message'' v_message;
     Some (if st = JStr ''tool_started'' then
             setP (setP n ''type'' (JStr ''status'')) ''message'' (JStr ''Computer is starting...'')
           else if st = JStr ''tool_completed'' then
             setP (setP n ''type'' (JStr ''status'')) ''message'' (JStr ''Done'')
           else n)
   }"

definition toolBranch :: "js_env \<Rightarrow> jsval \<Rightarrow> jsval \<Rightarrow> jsval \<Rightarrow> (jsval + jsval) option" where
  "toolBranch env message cont normalized =
     (let toolMessage = parseToolMessage env message cont in
      if truthy toolMessage then Some (Inl toolMessage)
      else do {
        v_tool \<leftarrow> extractToolName env message cont;
        v_output \<leftarrow> orE (Some cont) (getP message ''output'');
        v_success \<leftarrow> getP message ''success'';
        Some (Inr (setP (setP (setP (setP normalized ''type'' (JStr ''tool_result''))
                                ''tool'' v_tool) ''output'' v_output)
                     ''success'' (notFalse v_success)))
      })"

definition textBranch :: "js_env \<Rightarrow> string \<Rightarrow> jsval \<Rightarrow> jsval \<Rightarrow> jsval option" where
  "textBranch env kind cont normalized = do {
     v_content \<leftarrow> (if typeof cont = ''string'' then Some cont
                   else orE (getOpt (Some cont) ''content'')
                            (Some (strV (JSON_stringify env cont))));
     Some (setP (setP normalized ''type'' (JStr kind)) ''content'' v_content)
   }"

definition toolStartBranch :: "js_env \<Rightarrow> jsval \<Rightarrow> jsval \<Rightarrow> jsval \<Rightarrow> jsval option" where
  "toolStartBranch env message cont normalized = do {
     let n = setP normalized ''type'' (JStr ''tool_start'');
     n' \<leftarrow> (if truthy cont \<and> typeof cont = ''object'' then do {
              v_tag \<leftarrow> getP cont ''tag'';
              v_attrs \<leftarrow> getP cont ''attrs'';
              Some (setP (setP n ''tool'' v_tag) ''arguments'' v_attrs)
            } else Some n);
     v_content \<leftarrow> orE (getP message ''content'') (Some (strV (JSON_stringify env cont)));
     Some (setP n' ''content'' v_content)
   }"

definition toolResultBranch :: "js_env \<Rightarrow> jsval \<Rightarrow> jsval \<Rightarrow> jsval \<Rightarrow> jsval option" where
  "toolResultBranch env message cont normalized = do {
     let n = setP normalized ''type'' (JStr ''tool_result'');
     n' \<leftarrow> (if truthy cont \<and> typeof cont = ''object'' then do {
              v_tag \<leftarrow> getP cont ''tag'';
              v_result \<leftarrow> getP cont ''result'';
              v_ok \<leftarrow> getOpt (getP cont ''result'') ''ok'';
              v_error \<leftarrow> getOpt (getP cont ''result'') ''error'';
              Some (setP (setP (setP (setP n ''tool'' v_tag) ''output'' v_result)
                           ''success'' (notFalse v_ok)) ''error'' v_error)
            } else Some n);
     v_content \<leftarrow> orE (getP message ''content'') (Some (strV (JSON_stringify env cont)));
     Some (setP n' ''content'' v_content)
   }"

definition toolErrorBranch :: "js_env \<Rightarrow> jsval \<Rightarrow> jsval \<Rightarrow> jsval \<Rightarrow> jsval option" where
  "toolErrorBranch env message cont normalized = do {
     let n = setP normalized ''type'' (JStr ''tool_error'');
     n' \<leftarrow> (if truthy cont \<and> typeof cont = ''object'' then do {
              v_tag \<leftarrow> getP cont ''tag'';
              v_error \<leftarrow> getP cont ''error'';
              Some (setP (setP (setP n ''tool'' v_tag) ''error'' v_error)
                      ''success'' (JBool False))
            } else Some n);
     v_content \<leftarrow> orE (getP message ''content'') (Some (strV (JSON_stringify env cont)));
     Some (setP n' ''content'' v_content)
   }"

definition fallbackBranch :: "js_env \<Rightarrow> jsval \<Rightarrow> jsval \<Rightarrow> jsval \<Rightarrow> (jsval + jsval) option" where
  "fallbackBranch env message cont normalized = do {
     detectedType \<leftarrow> detectMessageType env (or_js cont message);
     if truthy detectedType then Some (Inl detectedType)
     else Some (Inr (setP (setP normalized ''type'' (JStr ''unknown''))
                       ''content'' (strV (JSON_stringify env message))))
   }"

definition dispatch :: "js_env \<Rightarrow> jsval \<Rightarrow> jsval \<Rightarrow> jsval \<Rightarrow> (jsval + jsval) option" where
  "dispatch env message cont normalized = do {
     v_type \<leftarrow> getP message ''type'';
     v_role \<leftarrow> getP message ''role'';
     if v_type = JStr ''status'' then
       map_option Inr (statusBranch message normalized)
     else if v_type = JStr ''tool'' \<or> v_role = JStr ''tool'' then
       toolBranch env message cont normalized
     else if v_type = JStr ''user'' \<or> v_role = JStr ''user'' then
       map_option Inr (textBranch env ''user'' cont normalized)
     else if v_type = JStr ''assistant'' \<or> v_role = JStr ''assistant'' then
       map_option Inr (textBranch env ''assistant'' cont normalized)
     else if v_type = JStr ''tool_start'' then
       map_option Inr (toolStartBranch env message cont normalized)
     else if v_type = JStr ''tool_result'' then
       map_option Inr (toolResultBranch env message cont normalized)
     else if v_type = JStr ''tool_error'' then
       map_option Inr (toolErrorBranch env message cont normalized)
     else fallbackBranch env message cont normalized
   }"

text \<open>
  The speculative parse of the content: \<open>parsedContent\<close> is the parsed value when the
  content is a string that parses to something of type \<open>object\<close>, and \<open>undefined\<close> otherwise;
  \<open>content\<close> becomes the parsed value in the first case and stays as it is in the second.
\<close>

definition parseContent :: "js_env \<Rightarrow> jsval \<Rightarrow> jsval option" where
  "parseContent env cont =
     (if typeof cont = ''string'' then
        (case JSON_parse env cont of
           None \<Rightarrow> None
         | Some parsed \<Rightarrow> if typeof parsed = ''object'' then Some parsed else None)
      else None)"

definition normalizeLegacy :: "js_env \<Rightarrow> jsval \<Rightarrow> jsval option" where
  "normalizeLegacy env message = do {
     v_id \<leftarrow> orE (orE (getP message ''id'') (getP message ''message_id''))
                 (Some (JStr (generateId env IdLegacy)));
     let normalized = JObj [(''id'', v_id), (''type'', JStr ''unknown''), (''raw'', message)];
     content0 \<leftarrow> getP message ''content'';
     let parsedContent = parseContent env content0;
     let cont = (case parsedContent of None \<Rightarrow> content0 | Some parsed \<Rightarrow> parsed);
     let normalized = setP normalized ''_content''
                        (case parsedContent of None \<Rightarrow> JUndefined | Some parsed \<Rightarrow> parsed);
     r \<leftarrow> dispatch env message cont normalized;
     (case r of
        Inl returned \<Rightarrow> Some returned
      | Inr normalized \<Rightarrow> do {
          v_timestamp \<leftarrow> orE (getP message ''timestamp'') (getP message ''created_at'');
          md \<leftarrow> getP message ''metadata'';
          v_metadata \<leftarrow> (if truthy md
                          then (if typeof md = ''string'' then JSON_parse env md else Some md)
                          else Some (JObj []));
          Some (setP (setP normalized ''timestamp'' v_timestamp) ''metadata'' v_metadata)
        })
   }"

text \<open>
  The \<open>try\<close> block of \<open>normalizeMessage\<close>, and the function with its \<open>catch\<close> block. The
  result of \<open>normalizeMessage\<close> is \<open>Some\<close> of the message it returns, and \<open>None\<close> would be an
  exception leaving it.
\<close>

definition normalizeMessage_try :: "js_env \<Rightarrow> jsval \<Rightarrow> jsval option" where
  "normalizeMessage_try env message =
     (if \<not> truthy message then
        Some (JObj [(''id'', JStr (generateId env IdNull)), (''type'', JStr ''unknown''),
                    (''raw'', message)])
      else do {
        v_type \<leftarrow> getP message ''type'';
        if truthy v_type \<and> v_type \<in> set (map JStr canonicalTypes) then do {
          v_id \<leftarrow> orE (orE (getP message ''id'') (getP message ''message_id''))
                      (Some (JStr (generateId env IdCanonical)));
          Some (spreadOver [(''id'', v_id)] message)
        } else normalizeLegacy env message
      })"

definition normalizeMessage :: "js_env \<Rightarrow> jsval \<Rightarrow> jsval option" where
  "normalizeMessage env message =
     (case normalizeMessage_try env message of
        Some r \<Rightarrow> Some r
      | None \<Rightarrow>
          Some (JObj [(''id'', JStr (generateId env IdCatch)), (''type'', JStr ''unknown''),
                      (''content'', JStr (''Error normalizing message: '' @ errorText env)),
                      (''raw'', message)]))"

text \<open>
  An environment and events for concrete evaluation of the normalizer; the events are
  chosen so that \<open>JSON.stringify\<close> is not called on them.
\<close>

definition example_env :: js_env where
  "example_env =
     \<lparr>JSON_parse = example_parse, nowISO = ''2025-01-01T00:00:00.000Z'',
      JSON_stringify = (\<lambda>v. Some ''{}''), generateId = (\<lambda>site. ''msg_1_abc''),
      errorText = ''SyntaxError: Unexpected token''\<rparr>"

definition wrapped_tool_event :: jsval where
  "wrapped_tool_event =
     JObj [(''role'', JStr ''tool''), (''content'', JStr ''<tool_result>done</tool_result>'')]"

definition user_event :: jsval where
  "user_event = JObj [(''role'', JStr ''user''), (''content'', JStr ''hello there'')]"

definition bad_metadata_event :: jsval where
  "bad_metadata_event =
     JObj [(''role'', JStr ''user''), (''content'', JStr ''hello there''),
           (''metadata'', JStr ''oops'')]"

text \<open>
  A record keeps an event when it is an object whose \<open>raw\<close> property is the event. An
  event is a wrapped tool event when it is a legacy tool message whose string content
  holds a match of the \<open>tool_result\<close> wrapper expression.
\<close>

definition keeps :: "jsval \<Rightarrow> jsval \<Rightarrow> bool" where
  "keeps n m = (case n of JObj ps \<Rightarrow> prop_of n ''raw'' = m | _ \<Rightarrow> False)"

definition wrappedToolEvent :: "jsval \<Rightarrow> bool" where
  "wrappedToolEvent message =
     ((prop_of message ''type'' = JStr ''tool'' \<or> prop_of message ''role'' = JStr ''tool'')
      \<and> (case prop_of message ''content'' of
            JStr c \<Rightarrow> includes_str c ''<tool_result>'' \<and> match_all_tool_result c \<noteq> []
          | _ \<Rightarrow> False))"

text \<open>
  The kinds of legacy event that the retention of the content depends on. An event is
  legacy when its type is not canonical. A legacy text event has the role \<open>user\<close> or
  \<open>assistant\<close> and not the type \<open>tool\<close>; a legacy tool event has the type or the role
  \<open>tool\<close>. The metadata of an event parse when they are not a non-empty string or
  \<open>JSON.parse\<close> accepts them, and they are usable when the parsed value is moreover neither
  \<open>null\<close> nor \<open>undefined\<close>, so that \<open>extractToolName\<close> can read its properties.
\<close>

definition legacyEvent :: "jsval \<Rightarrow> bool" where
  "legacyEvent message \<longleftrightarrow> prop_of message ''type'' \<notin> set (map JStr canonicalTypes)"

definition legacyTextEvent :: "jsval \<Rightarrow> bool" where
  "legacyTextEvent message \<longleftrightarrow>
     legacyEvent message \<and> prop_of message ''type'' \<noteq> JStr ''tool''
     \<and> (prop_of message ''role'' = JStr ''user'' \<or> prop_of message ''role'' = JStr ''assistant'')"

definition legacyToolEvent :: "jsval \<Rightarrow> bool" where
  "legacyToolEvent message \<longleftrightarrow>
     legacyEvent message
     \<and> (prop_of message ''type'' = JStr ''tool'' \<or> prop_of message ''role'' = JStr ''tool'')"

definition metadataParse :: "js_env \<Rightarrow> jsval \<Rightarrow> bool" where
  "metadataParse env message =
     (let md = prop_of message ''metadata''
      in if truthy md \<and> typeof md = ''string'' then JSON_parse env md \<noteq> None else True)"

definition metadataUsable :: "js_env \<Rightarrow> jsval \<Rightarrow> bool" where
  "metadataUsable env message =
     (let md = prop_of message ''metadata''
      in if truthy md \<and> typeof md = ''string''
         then (case JSON_parse env md of None \<Rightarrow> False | Some v \<Rightarrow> \<not> nullish v)
         else True)"

definition plain_tool_event :: jsval where
  "plain_tool_event = JObj [(''role'', JStr ''tool''), (''content'', JStr ''plain text'')]"

definition canonical_event :: jsval where
  "canonical_event =
     JObj [(''type'', JStr ''assistant''), (''content'', JStr ''hello there''),
           (''message_id'', JStr ''m7'')]"

section \<open>Message Store: properties\<close>

lemma indexOf_nonneg_iff: "indexOf xs x \<ge> 0 \<longleftrightarrow> x \<in> set xs"
  by (induction xs) (auto simp: Let_def)

lemma indexOf_lower: "indexOf xs x \<ge> -1"
  by (induction xs) (auto simp: Let_def)

lemma updateMessage_known:
  "i \<in> set (order s) \<Longrightarrow>
   updateMessage \<lparr>message_id = i, props = f\<rparr> s =
     s\<lparr>byId := (byId s)(i \<mapsto> spread (byId s i) \<lparr>message_id = i, props = f\<rparr>)\<rparr>"
  by (simp add: updateMessage_def indexOf_nonneg_iff Let_def)

lemma updateMessage_new:
  "i \<notin> set (order s) \<Longrightarrow>
   updateMessage \<lparr>message_id = i, props = f\<rparr> s =
     s\<lparr>byId := (byId s)(i \<mapsto> \<lparr>message_id = i, props = f\<rparr>), order := order s @ [i]\<rparr>"
  by (simp add: updateMessage_def indexOf_nonneg_iff Let_def)

lemma updateMessage_order_mem: "message_id m \<in> set (order (updateMessage m s))"
  by (simp add: updateMessage_def indexOf_nonneg_iff Let_def)

lemma store_inv_initial: "store_inv initialState"
  by (simp add: store_inv_def initialState_def)

lemma store_inv_updateMessage: "store_inv s \<Longrightarrow> store_inv (updateMessage m s)"
  by (auto simp: store_inv_def updateMessage_def indexOf_nonneg_iff Let_def)

lemma store_inv_clear: "store_inv (clear s)"
  by (simp add: store_inv_def clear_def)

lemma store_inv_foldl: "store_inv s \<Longrightarrow> store_inv (foldl apply_store_op s ops)"
proof (induction ops arbitrary: s)
  case Nil
  then show ?case by simp
next
  case (Cons op ops)
  have "store_inv (apply_store_op s op)"
    using Cons.prems by (cases op) (simp_all add: store_inv_updateMessage store_inv_clear)
  then show ?case using Cons.IH by simp
qed

lemma store_inv_length: "store_inv s \<Longrightarrow> length (order s) = card (dom (byId s))"
  by (metis store_inv_def distinct_card)

text \<open>
  C9. Starting from the empty state, after any sequence of \<open>updateMessage\<close> and \<open>clear\<close>
  calls the insertion-order list has exactly as many entries as the id-to-message map.
  The sequence is arbitrary, so the equation holds after every operation of a run.
\<close>

theorem store_order_length_eq_size:
  "length (order (run_store_ops ops)) = card (dom (byId (run_store_ops ops)))"
  unfolding run_store_ops_def
  by (rule store_inv_length) (rule store_inv_foldl [OF store_inv_initial])

text \<open>
  C5. Two messages with the same id \<open>i\<close> are upserted one after the other into any state.
  The stored message then carries every key of the second message with the second
  message's value, and every key of the first message that the second does not have, with
  the first message's value: the union of disjoint field sets, the later value on shared
  keys. When the id was new its props are exactly the merge of the two. The second upsert
  leaves the order list as it is, the first one leaves it as it is when the id is known
  and appends the id at the end when it is new; no other entry of the map changes.
\<close>

theorem updateMessage_twice_merges:
  "let m1 = \<lparr>message_id = i, props = f1\<rparr>;
       m2 = \<lparr>message_id = i, props = f2\<rparr>;
       s1 = updateMessage m1 s;
       s2 = updateMessage m2 s1
   in (\<exists>m. byId s2 i = Some m \<and> message_id m = i
          \<and> (\<forall>k v. f2 k = Some v \<longrightarrow> props m k = Some v)
          \<and> (\<forall>k v. f1 k = Some v \<longrightarrow> f2 k = None \<longrightarrow> props m k = Some v)
          \<and> dom f1 \<union> dom f2 \<subseteq> dom (props m)
          \<and> (i \<notin> set (order s) \<longrightarrow> props m = f1 ++ f2))
      \<and> order s2 = order s1
      \<and> (i \<in> set (order s) \<longrightarrow> order s1 = order s)
      \<and> (i \<notin> set (order s) \<longrightarrow> order s1 = order s @ [i])
      \<and> (\<forall>j. j \<noteq> i \<longrightarrow> byId s2 j = byId s j)"
proof (cases "i \<in> set (order s)")
  case True
  then show ?thesis
    by (cases "byId s i")
       (auto simp: Let_def updateMessage_known spread_def map_add_def split: option.splits)
next
  case False
  then show ?thesis
    by (auto simp: Let_def updateMessage_new updateMessage_known spread_def map_add_def
             split: option.splits)
qed

theorem updateMessage_twice_merges_witness:
  "(\<exists>m. byId (updateMessage \<lparr>message_id = ''m1'', props = [''b'' \<mapsto> JNum 2, ''c'' \<mapsto> JNum 3]\<rparr>
            (updateMessage \<lparr>message_id = ''m1'', props = [''a'' \<mapsto> JNum 1, ''c'' \<mapsto> JNum 0]\<rparr>
               initialState)) ''m1'' = Some m
        \<and> props m ''a'' = Some (JNum 1) \<and> props m ''b'' = Some (JNum 2)
        \<and> props m ''c'' = Some (JNum 3))
   \<and> ''m1'' \<notin> set (order initialState)
   \<and> order (updateMessage \<lparr>message_id = ''m1'', props = [''b'' \<mapsto> JNum 2, ''c'' \<mapsto> JNum 3]\<rparr>
            (updateMessage \<lparr>message_id = ''m1'', props = [''a'' \<mapsto> JNum 1, ''c'' \<mapsto> JNum 0]\<rparr>
               initialState)) = [''m1'']"
  using updateMessage_twice_merges
    [where i = "''m1''" and ?f1.0 = "[''a'' \<mapsto> JNum 1, ''c'' \<mapsto> JNum 0]"
       and s = initialState and ?f2.0 = "[''b'' \<mapsto> JNum 2, ''c'' \<mapsto> JNum 3]"]
  by (auto simp: Let_def initialState_def)

section \<open>Replay Engine: properties\<close>

text \<open>
  C8. On a loaded, non-empty history \<open>skipToMessage\<close> sets the index to the argument
  clamped into \<open>[0, length - 1]\<close>: \<open>0\<close> for a negative argument, \<open>length - 1\<close> for one
  beyond the end, the argument itself otherwise. It stops playback (the playing flag is
  off and the reveal timer is cleared) and clears the partial reveal (empty streaming
  text, reveal not complete).
\<close>

theorem skipToMessage_clamps:
  "msgs \<noteq> [] \<Longrightarrow>
   (let st' = skipToMessage (Some msgs) index st;
        n = int (length msgs)
    in 0 \<le> currentMessageIndex st' \<and> currentMessageIndex st' \<le> n - 1
       \<and> currentMessageIndex st' =
           (if index < 0 then 0 else if index > n - 1 then n - 1 else index)
       \<and> \<not> isPlaying st' \<and> \<not> streamingTimer st'
       \<and> streamingText st' = [] \<and> \<not> isStreamingComplete st')"
  by (cases msgs) (auto simp: skipToMessage_def pausePlayback_def Let_def)

theorem skipToMessage_clamps_witness:
  "replicate 10 \<lparr>msg_id = ''m'', msg_type = ''user'', content = ''hi'', timestamp = ''t''\<rparr> \<noteq> []
   \<and> currentMessageIndex
        (skipToMessage
           (Some (replicate 10 \<lparr>msg_id = ''m'', msg_type = ''user'', content = ''hi'', timestamp = ''t''\<rparr>))
           (- 5) (initialReplay\<lparr>isPlaying := True, streamingText := ''h''\<rparr>)) = 0
   \<and> currentMessageIndex
        (skipToMessage
           (Some (replicate 10 \<lparr>msg_id = ''m'', msg_type = ''user'', content = ''hi'', timestamp = ''t''\<rparr>))
           999 (initialReplay\<lparr>isPlaying := True, streamingText := ''h''\<rparr>)) = 9
   \<and> \<not> isPlaying
        (skipToMessage
           (Some (replicate 10 \<lparr>msg_id = ''m'', msg_type = ''user'', content = ''hi'', timestamp = ''t''\<rparr>))
           999 (initialReplay\<lparr>isPlaying := True, streamingText := ''h''\<rparr>))
   \<and> streamingText
        (skipToMessage
           (Some (replicate 10 \<lparr>msg_id = ''m'', msg_type = ''user'', content = ''hi'', timestamp = ''t''\<rparr>))
           999 (initialReplay\<lparr>isPlaying := True, streamingText := ''h''\<rparr>)) = []"
  using skipToMessage_clamps
      [of "replicate 10 \<lparr>msg_id = ''m'', msg_type = ''user'', content = ''hi'', timestamp = ''t''\<rparr>"
          "- 5" "initialReplay\<lparr>isPlaying := True, streamingText := ''h''\<rparr>"]
    skipToMessage_clamps
      [of "replicate 10 \<lparr>msg_id = ''m'', msg_type = ''user'', content = ''hi'', timestamp = ''t''\<rparr>"
          999 "initialReplay\<lparr>isPlaying := True, streamingText := ''h''\<rparr>"]
  by (simp add: Let_def)

lemma reveal_ticks:
  assumes "\<not> isPlaying st" "currentMessageIndex st = int i" "i < length msgs"
    and "k \<le> length (content (msgs ! i))"
  shows "(streamMessage ^^ k) (startPlayback (Some msgs) st)
         = (startPlayback (Some msgs) st)
             \<lparr>streamingText := take k (content (msgs ! i)), charIndex := k\<rparr>"
  using assms(4)
proof (induction k)
  case 0
  then show ?case using assms(1-3) by (simp add: startPlayback_def messageAt_def)
next
  case (Suc k)
  then have "k < length (content (msgs ! i))" by simp
  then show ?case
    using Suc assms(1-3)
    by (simp add: streamMessage_def startPlayback_def messageAt_def)
qed

lemma reveal_done:
  assumes "\<not> isPlaying st" "currentMessageIndex st = int i" "i < length msgs"
  shows "streamMessage ((streamMessage ^^ length (content (msgs ! i))) (startPlayback (Some msgs) st))
         = (startPlayback (Some msgs) st)
             \<lparr>streamingText := content (msgs ! i), charIndex := length (content (msgs ! i)),
              isStreamingComplete := True, streamingTimer := False,
              advancePending := advancePending st + 1\<rparr>"
  using assms
  by (simp add: reveal_ticks [OF assms order.refl])
     (simp add: streamMessage_def startPlayback_def messageAt_def)

text \<open>
  The example of the specification: the marker is extracted and stripped from a settled
  message.
\<close>

lemma parseAttachments_example:
  "parseAttachments ''Summary text\<newline>\<newline>[Uploaded File: reports/out.pdf]''
   = (''Summary text'', [''reports/out.pdf''])"
  by (simp add: parseAttachments_def Let_def match_marker_def marker_open_def capture1_def
      isLineTerminator_def trim_def isWhiteSpace_def List.map_filter_def)

text \<open>
  Removing the matches can leave a complete marker behind, because the search goes on
  after the match and never looks at the joined text again.
\<close>

lemma parseAttachments_leaves_marker:
  "parseAttachments ''[Uploaded [Uploaded File: x]File: y]'' = (''[Uploaded File: y]'', [''x''])"
  by (simp add: parseAttachments_def Let_def match_marker_def marker_open_def capture1_def
      isLineTerminator_def trim_def isWhiteSpace_def List.map_filter_def)

lemma reveal_example_display:
  "displayContent ((streamMessage ^^ 22) (startPlayback (Some [attachment_message]) initialReplay))
        0 attachment_message
       = ''See [Uploaded File: a.''"
proof -
  have 1: "\<not> isPlaying initialReplay" by (simp add: initialReplay_def)
  have 2: "currentMessageIndex initialReplay = int 0" by (simp add: initialReplay_def)
  have 3: "0 < length [attachment_message]" by simp
  have 4: "22 \<le> length (content ([attachment_message] ! 0))"
    by (simp add: attachment_message_def)
  show ?thesis
    by (simp add: reveal_ticks [OF 1 2 3 4])
       (simp add: displayContent_def startPlayback_def Let_def initialReplay_def
          attachment_message_def)
qed

lemma reveal_example_unterminated: "unterminated_marker ''See [Uploaded File: a.''"
  by (simp add: match_marker_def marker_open_def isLineTerminator_def)

lemma reveal_example_parse:
  "fst (parseAttachments ''See [Uploaded File: a.'') = ''See [Uploaded File: a.''"
  by (simp add: parseAttachments_def Let_def match_marker_def marker_open_def
      isLineTerminator_def trim_def isWhiteSpace_def)

text \<open>
  C3 as stated fails. The message \<open>See [Uploaded File: a.txt]\<close> is being revealed; after
  22 ticks of the reveal interval the page renders \<open>See [Uploaded File: a.\<close>, the raw prefix
  of the content, which holds an unterminated marker. Extraction is applied to the whole
  content, not to the revealed substring; and applied to that substring it would return it
  unchanged, since the expression needs the closing bracket.
\<close>

theorem partial_reveal_shows_unterminated_marker:
  "\<not> isPlaying initialReplay
   \<and> displayContent ((streamMessage ^^ 22) (startPlayback (Some [attachment_message]) initialReplay))
        0 attachment_message
       = ''See [Uploaded File: a.''
   \<and> unterminated_marker ''See [Uploaded File: a.''
   \<and> fst (parseAttachments ''See [Uploaded File: a.'') = ''See [Uploaded File: a.''"
  using reveal_example_display reveal_example_unterminated reveal_example_parse
  by (simp add: initialReplay_def)

text \<open>
  C3, amended. Playback is started on the message at the current index. While that
  message is in its partial reveal, the page renders the raw revealed prefix of its
  content: after \<open>k\<close> ticks of the reveal interval its first \<open>k\<close> characters, with no
  attachment extraction. Once the reveal is complete, one tick after the last character,
  the page renders the clean text that \<open>parseAttachments\<close> computes from the whole content;
  every other message is rendered by that clean text at all times.
\<close>

theorem displayContent_reveal:
  assumes "\<not> isPlaying st" "currentMessageIndex st = int i" "i < length msgs"
    and "k \<le> length (content (msgs ! i))"
  shows "displayContent ((streamMessage ^^ k) (startPlayback (Some msgs) st)) i (msgs ! i)
           = take k (content (msgs ! i))
         \<and> displayContent
             ((streamMessage ^^ Suc (length (content (msgs ! i)))) (startPlayback (Some msgs) st))
             i (msgs ! i)
           = fst (parseAttachments (content (msgs ! i)))
         \<and> (\<forall>j m. j \<noteq> i \<longrightarrow>
              displayContent ((streamMessage ^^ k) (startPlayback (Some msgs) st)) j m
              = fst (parseAttachments (content m)))"
proof -
  have a: "displayContent ((streamMessage ^^ k) (startPlayback (Some msgs) st)) i (msgs ! i)
           = take k (content (msgs ! i))"
    using assms
    by (simp add: reveal_ticks [OF assms])
       (simp add: displayContent_def startPlayback_def Let_def)
  have b: "displayContent
             ((streamMessage ^^ Suc (length (content (msgs ! i)))) (startPlayback (Some msgs) st))
             i (msgs ! i)
           = fst (parseAttachments (content (msgs ! i)))"
    using assms(1-3)
    by (simp add: reveal_done [OF assms(1-3)])
       (simp add: displayContent_def Let_def)
  have c: "displayContent ((streamMessage ^^ k) (startPlayback (Some msgs) st)) j m
              = fst (parseAttachments (content m))" if "j \<noteq> i" for j m
    using assms that
    by (simp add: reveal_ticks [OF assms])
       (simp add: displayContent_def startPlayback_def Let_def)
  show ?thesis using a b c by blast
qed

theorem displayContent_reveal_witness:
  "\<not> isPlaying initialReplay
   \<and> currentMessageIndex initialReplay = int 0
   \<and> 0 < length [attachment_message]
   \<and> 22 \<le> length (content ([attachment_message] ! 0))
   \<and> displayContent ((streamMessage ^^ 22) (startPlayback (Some [attachment_message]) initialReplay))
        0 ([attachment_message] ! 0)
       = take 22 (content ([attachment_message] ! 0))"
proof -
  have 1: "\<not> isPlaying initialReplay" by (simp add: initialReplay_def)
  have 2: "currentMessageIndex initialReplay = int 0" by (simp add: initialReplay_def)
  have 3: "0 < length [attachment_message]" by simp
  have 4: "22 \<le> length (content ([attachment_message] ! 0))"
    by (simp add: attachment_message_def)
  show ?thesis
    using 1 2 3 4 displayContent_reveal [OF 1 2 3 4] by blast
qed

section \<open>Stream Transport: properties\<close>

lemma steps_invoke_last:
  "steps [invoke cb r c] st = (st\<lparr>calls := calls st @ [(r, c)]\<rparr>, cb c)"
  by (cases "cb c") (simp_all add: invoke_def)

text \<open>
  C10. An event whose text contains \<open>"type":"ping"\<close> anywhere is handled as a heartbeat:
  the handler sets the last-activity time stamp and returns. The rest of the state is
  untouched, so none of \<open>onMessage\<close>, \<open>onError\<close> and \<open>onClose\<close> is invoked, whatever else
  the payload holds.
\<close>

theorem onmessage_ping_only_touches_timestamp:
  \<open>includes_str rawData ''"type":"ping"'' \<Longrightarrow>
   onmessage cb now agentRunId eventSource rawData st = (st\<lparr>lastStreamMessage := now\<rparr>, None)
   \<and> calls (fst (onmessage cb now agentRunId eventSource rawData st)) = calls st\<close>
  by (simp add: onmessage_def Let_def)

theorem onmessage_ping_only_touches_timestamp_witness:
  \<open>includes_str ping_in_content ''"type":"ping"''
   \<and> onmessage no_throw 7 ''run1'' 0 ping_in_content one_stream
       = (one_stream\<lparr>lastStreamMessage := 7\<rparr>, None)
   \<and> calls (fst (onmessage no_throw 7 ''run1'' 0 ping_in_content one_stream)) = []\<close>
proof -
  have h: \<open>includes_str ping_in_content ''"type":"ping"''\<close>
    by (simp add: ping_in_content_def)
  have c: "calls one_stream = []"
    by (simp add: one_stream_def streamAgent_def setupStream_def closeExisting_def
        initialTransport_def)
  show ?thesis
    using h c onmessage_ping_only_touches_timestamp
      [OF h, of no_throw 7 "''run1''" 0 one_stream]
    by simp
qed

text \<open>
  C1 as stated fails: a completion status without a finality marker closes the stream.
  On the stream of \<open>run1\<close> the event \<open>{"type":"status","status":"completed"}\<close> is forwarded,
  the run id stays out of the terminal set, but the \<open>EventSource\<close> is closed, the run is
  unregistered and \<open>onClose\<close> is invoked.
\<close>

theorem bare_completion_closes_stream:
  \<open>activeStreams one_stream ''run1'' = Some 0
   \<and> 0 \<notin> closedSources one_stream
   \<and> \<not> includes_str bare_completed ''Run data not available for streaming''
   \<and> \<not> includes_str bare_completed ''Stream ended with status: completed''
   \<and> calls (fst (onmessage no_throw 7 ''run1'' 0 bare_completed one_stream))
       = [(''run1'', OnMessage bare_completed), (''run1'', OnClose)]
   \<and> 0 \<in> closedSources (fst (onmessage no_throw 7 ''run1'' 0 bare_completed one_stream))
   \<and> activeStreams (fst (onmessage no_throw 7 ''run1'' 0 bare_completed one_stream)) ''run1'' = None
   \<and> ''run1'' \<notin> nonRunningAgentRuns (fst (onmessage no_throw 7 ''run1'' 0 bare_completed one_stream))\<close>
  by (simp add: one_stream_def streamAgent_def setupStream_def closeExisting_def
      initialTransport_def bare_completed_def onmessage_def onmessage_body_def Let_def
      trim_def isWhiteSpace_def invoke_def closeSource_def deleteActive_def no_throw_def)

text \<open>
  C1, amended. For a substantive event (no heartbeat, not blank, no run-not-found text)
  that is a status event with a completion marker and neither finality marker, and whose
  \<open>onMessage\<close> invocation returns: the handler forwards the event to \<open>onMessage\<close> and
  leaves the terminal run set as it is; it then closes the \<open>EventSource\<close>, unregisters the
  run's stream and invokes \<open>onClose\<close> (an exception of \<open>onClose\<close> goes to \<open>onError\<close>).
\<close>

theorem onmessage_bare_completion:
  assumes \<open>\<not> includes_str rawData ''"type":"ping"''\<close>
    and \<open>trim rawData \<noteq> []\<close>
    and \<open>\<not> (includes_str rawData ''Agent run'' \<and> includes_str rawData ''not found in active runs'')\<close>
    and \<open>includes_str rawData ''"type":"status"''\<close>
    and \<open>includes_str rawData ''"status":"completed"''\<close>
    and \<open>\<not> includes_str rawData ''Run data not available for streaming''\<close>
    and \<open>\<not> includes_str rawData ''Stream ended with status: completed''\<close>
    and \<open>cb (OnMessage rawData) = None\<close>
  shows \<open>calls (fst (onmessage cb now agentRunId eventSource rawData st))
           = calls st @ [(agentRunId, OnMessage rawData), (agentRunId, OnClose)]
               @ (case cb OnClose of None \<Rightarrow> [] | Some e \<Rightarrow> [(agentRunId, OnError e)])
         \<and> nonRunningAgentRuns (fst (onmessage cb now agentRunId eventSource rawData st))
           = nonRunningAgentRuns st
         \<and> eventSource \<in> closedSources (fst (onmessage cb now agentRunId eventSource rawData st))
         \<and> activeStreams (fst (onmessage cb now agentRunId eventSource rawData st)) agentRunId = None\<close>
proof -
  have ne: "rawData \<noteq> []"
    using assms(2) by (auto simp: trim_def)
  have nf: "(includes_str rawData ''Agent run''
             \<and> includes_str rawData ''not found in active runs'') = False"
    using assms(3) by simp
  show ?thesis
    using assms(1,2,4-8) ne
    by (cases "cb OnClose")
       (simp_all add: onmessage_def onmessage_body_def nf Let_def invoke_def closeSource_def
          deleteActive_def)
qed

theorem onmessage_bare_completion_witness:
  \<open>\<not> includes_str bare_completed ''"type":"ping"''
   \<and> trim bare_completed \<noteq> []
   \<and> includes_str bare_completed ''"type":"status"''
   \<and> includes_str bare_completed ''"status":"completed"''
   \<and> calls (fst (onmessage no_throw 7 ''run1'' 0 bare_completed one_stream))
       = calls one_stream @ [(''run1'', OnMessage bare_completed), (''run1'', OnClose)]
   \<and> nonRunningAgentRuns (fst (onmessage no_throw 7 ''run1'' 0 bare_completed one_stream))
       = nonRunningAgentRuns one_stream\<close>
proof -
  have 1: \<open>\<not> includes_str bare_completed ''"type":"ping"''\<close>
    by (simp add: bare_completed_def)
  have 2: \<open>trim bare_completed \<noteq> []\<close>
    by (simp add: bare_completed_def trim_def isWhiteSpace_def)
  have 3: \<open>\<not> (includes_str bare_completed ''Agent run''
               \<and> includes_str bare_completed ''not found in active runs'')\<close>
    by (simp add: bare_completed_def)
  have 4: \<open>includes_str bare_completed ''"type":"status"''\<close>
    by (simp add: bare_completed_def)
  have 5: \<open>includes_str bare_completed ''"status":"completed"''\<close>
    by (simp add: bare_completed_def)
  have 6: \<open>\<not> includes_str bare_completed ''Run data not available for streaming''\<close>
    by (simp add: bare_completed_def)
  have 7: \<open>\<not> includes_str bare_completed ''Stream ended with status: completed''\<close>
    by (simp add: bare_completed_def)
  have 8: \<open>no_throw (OnMessage bare_completed) = None\<close>
    by (simp add: no_throw_def)
  have 9: \<open>no_throw OnClose = None\<close>
    by (simp add: no_throw_def)
  show ?thesis
    using 1 2 3 4 5 6 7 8 9
      onmessage_bare_completion
        [where rawData = bare_completed and cb = no_throw and now = 7
           and agentRunId = "''run1''" and eventSource = 0 and st = one_stream]
    by simp
qed

text \<open>
  C2 as stated fails: \<open>streamAgent\<close> never reads the terminal run set. After
  \<open>stopAgent\<close> has made \<open>run1\<close> terminal, a call of \<open>streamAgent\<close> for \<open>run1\<close> with an access
  token at hand constructs a new \<open>EventSource\<close> and registers it as the open stream of
  the run.
\<close>

theorem streamAgent_opens_for_terminal_run:
  "''run1'' \<in> nonRunningAgentRuns stopped_once
   \<and> activeStreams stopped_once ''run1'' = None
   \<and> created stopped_once = 0
   \<and> created (streamAgent no_throw (Some ''tok'') True ''run1'' stopped_once) = 1
   \<and> activeStreams (streamAgent no_throw (Some ''tok'') True ''run1'' stopped_once) ''run1'' = Some 0
   \<and> 0 \<notin> closedSources (streamAgent no_throw (Some ''tok'') True ''run1'' stopped_once)"
  by (simp add: stopped_once_def stopAgent_def streamAgent_def setupStream_def
      closeExisting_def initialTransport_def Let_def)

text \<open>
  C2, amended. \<open>streamAgent\<close> neither consults nor changes the terminal run set. For
  every run id, terminal or not, it first closes and unregisters the stream registered
  for that run id; with an access token and a well-formed address it then constructs one
  new \<open>EventSource\<close> and registers it for the run id, without invoking a callback;
  without an access token it constructs none and reports \<open>Authentication required\<close>
  through \<open>onError\<close>.
\<close>

theorem streamAgent_ignores_terminal_set:
  "nonRunningAgentRuns (streamAgent cb token url_ok agentRunId st) = nonRunningAgentRuns st
   \<and> (\<forall>es. activeStreams st agentRunId = Some es \<longrightarrow>
         es \<in> closedSources (streamAgent cb token url_ok agentRunId st))
   \<and> (\<forall>access_token. token = Some access_token \<longrightarrow> url_ok \<longrightarrow>
         created (streamAgent cb token url_ok agentRunId st) = created st + 1
         \<and> activeStreams (streamAgent cb token url_ok agentRunId st) agentRunId
             = Some (created st)
         \<and> calls (streamAgent cb token url_ok agentRunId st) = calls st)
   \<and> (token = None \<longrightarrow>
         created (streamAgent cb token url_ok agentRunId st) = created st
         \<and> activeStreams (streamAgent cb token url_ok agentRunId st) agentRunId = None
         \<and> prefix (calls st @ [(agentRunId, OnError ''Authentication required'')])
              (calls (streamAgent cb token url_ok agentRunId st)))"
proof -
  have "cb (OnError ''Authentication required'') = None
        \<or> (\<exists>e. cb (OnError ''Authentication required'') = Some e)"
    by (cases "cb (OnError ''Authentication required'')") simp_all
  then show ?thesis
    by (cases "activeStreams st agentRunId"; cases token)
       (auto simp: streamAgent_def setupStream_def closeExisting_def invoke_def
             split: option.splits)
qed

theorem streamAgent_ignores_terminal_set_witness:
  "''run1'' \<in> nonRunningAgentRuns stopped_once
   \<and> nonRunningAgentRuns (streamAgent no_throw (Some ''tok'') True ''run1'' stopped_once)
       = nonRunningAgentRuns stopped_once
   \<and> created (streamAgent no_throw (Some ''tok'') True ''run1'' stopped_once)
       = created stopped_once + 1
   \<and> activeStreams (streamAgent no_throw (Some ''tok'') True ''run1'' stopped_once) ''run1''
       = Some (created stopped_once)"
proof -
  have "''run1'' \<in> nonRunningAgentRuns stopped_once"
    by (simp add: stopped_once_def stopAgent_def closeExisting_def initialTransport_def Let_def)
  then show ?thesis
    using streamAgent_ignores_terminal_set
      [where cb = no_throw and token = "Some ''tok''" and url_ok = True
         and agentRunId = "''run1''" and st = stopped_once]
    by simp
qed

text \<open>
  C6 as stated fails on both counts. With an access token at hand and an accepting
  backend, the second \<open>stopAgent\<close> for a run id that the first call has already made
  terminal sends a second remote stop request; and without an access token the call is
  rejected with an error.
\<close>

theorem stopAgent_twice_sends_two_requests:
  "''run1'' \<in> nonRunningAgentRuns stopped_once
   \<and> requests stopped_once = [StopRequest ''run1'' ''tok'']
   \<and> requests stopped_twice = [StopRequest ''run1'' ''tok'', StopRequest ''run1'' ''tok'']
   \<and> snd (stopAgent None (Some (True, ''OK'')) ''run1'' stopped_once)
       = Some ''No access token available''"
  by (simp add: stopped_twice_def stopped_once_def stopAgent_def closeExisting_def
      initialTransport_def Let_def)

lemma closeExisting_simps:
  "nonRunningAgentRuns (closeExisting r st) = nonRunningAgentRuns st"
  "activeStreams (closeExisting r st) = (activeStreams st)(r := None)"
  "requests (closeExisting r st) = requests st"
  "calls (closeExisting r st) = calls st"
  "created (closeExisting r st) = created st"
  by (cases "activeStreams st r"; auto simp: closeExisting_def)+

lemma closeExisting_closed:
  "closedSources (closeExisting r st) =
     closedSources st \<union> (case activeStreams st r of None \<Rightarrow> {} | Some es \<Rightarrow> {es})"
  by (cases "activeStreams st r") (auto simp: closeExisting_def)

lemma stopAgent_fst:
  "nonRunningAgentRuns (fst (stopAgent token response r st)) = insert r (nonRunningAgentRuns st)"
  "activeStreams (fst (stopAgent token response r st)) = (activeStreams st)(r := None)"
  "requests (fst (stopAgent token response r st)) =
     requests st @ (case token of None \<Rightarrow> [] | Some t \<Rightarrow> [StopRequest r t])"
  by (cases token; cases response;
      simp add: stopAgent_def Let_def closeExisting_simps split: prod.splits)+

lemma stopAgent_closed:
  "closedSources (fst (stopAgent token response r st)) =
     closedSources st \<union> (case activeStreams st r of None \<Rightarrow> {} | Some es \<Rightarrow> {es})"
  by (cases token; cases response)
     (simp_all add: stopAgent_def Let_def closeExisting_closed split: prod.splits)

lemma stopAgent_snd:
  "snd (stopAgent token response r st) = None
   \<longleftrightarrow> token \<noteq> None \<and> (\<exists>txt. response = Some (True, txt))"
  by (cases token; cases response) (auto simp: stopAgent_def Let_def split: prod.splits)

text \<open>
  C6, amended. Every call of \<open>stopAgent\<close> first adds the run id to the terminal set, so the
  set is the same after a second call, and closes and unregisters the stream of the run:
  the \<open>EventSource\<close> registered for the run id is closed by the first call (no other one
  is closed) and the run has no registered stream afterwards, so the second call closes
  nothing. It never consults the set: each call whose session has an access token sends
  one remote stop request, also when the run id is already terminal. A call is rejected
  exactly when there is no access token, the request fails, or the response is not ok.
\<close>

theorem stopAgent_twice:
  "(let r1 = stopAgent token1 response1 agentRunId st;
        r2 = stopAgent token2 response2 agentRunId (fst r1)
    in agentRunId \<in> nonRunningAgentRuns (fst r1)
       \<and> nonRunningAgentRuns (fst r2) = nonRunningAgentRuns (fst r1)
       \<and> activeStreams (fst r1) agentRunId = None
       \<and> activeStreams (fst r2) agentRunId = None
       \<and> (\<forall>es. activeStreams st agentRunId = Some es \<longrightarrow> es \<in> closedSources (fst r1))
       \<and> closedSources (fst r1) =
           closedSources st
           \<union> (case activeStreams st agentRunId of None \<Rightarrow> {} | Some es \<Rightarrow> {es})
       \<and> closedSources (fst r2) = closedSources (fst r1)
       \<and> (\<forall>other. other \<noteq> agentRunId \<longrightarrow>
             activeStreams (fst r2) other = activeStreams st other)
       \<and> requests (fst r2) =
           requests st
           @ (case token1 of None \<Rightarrow> [] | Some t \<Rightarrow> [StopRequest agentRunId t])
           @ (case token2 of None \<Rightarrow> [] | Some t \<Rightarrow> [StopRequest agentRunId t])
       \<and> (snd r1 = None \<longleftrightarrow> token1 \<noteq> None \<and> (\<exists>txt. response1 = Some (True, txt)))
       \<and> (snd r2 = None \<longleftrightarrow> token2 \<noteq> None \<and> (\<exists>txt. response2 = Some (True, txt))))"
  unfolding Let_def
  by (simp only: stopAgent_fst stopAgent_snd stopAgent_closed) auto

lemma one_stream_state:
  "activeStreams one_stream ''run1'' = Some 0" "closedSources one_stream = {}"
  "requests one_stream = []"
  by (simp_all add: one_stream_def streamAgent_def setupStream_def closeExisting_def
      initialTransport_def)

theorem stopAgent_twice_witness:
  "activeStreams one_stream ''run1'' = Some 0
   \<and> 0 \<notin> closedSources one_stream
   \<and> 0 \<in> closedSources (fst (stopAgent (Some ''tok'') (Some (True, ''OK'')) ''run1'' one_stream))
   \<and> activeStreams
        (fst (stopAgent (Some ''tok'') (Some (True, ''OK'')) ''run1'' one_stream)) ''run1'' = None
   \<and> ''run1'' \<in> nonRunningAgentRuns
        (fst (stopAgent (Some ''tok'') (Some (True, ''OK'')) ''run1'' one_stream))
   \<and> requests
        (fst (stopAgent (Some ''tok'') (Some (True, ''OK'')) ''run1''
           (fst (stopAgent (Some ''tok'') (Some (True, ''OK'')) ''run1'' one_stream))))
       = [StopRequest ''run1'' ''tok'', StopRequest ''run1'' ''tok'']
   \<and> snd (stopAgent (Some ''tok'') (Some (True, ''OK'')) ''run1'' one_stream) = None"
  using stopAgent_twice
    [where ?token1.0 = "Some ''tok''" and ?response1.0 = "Some (True, ''OK'')"
       and ?token2.0 = "Some ''tok''" and ?response2.0 = "Some (True, ''OK'')"
       and agentRunId = "''run1''" and st = one_stream]
    one_stream_state
  by (simp add: Let_def)

section \<open>Tool Event Model: properties\<close>

lemma getP_prop: "\<not> nullish v \<Longrightarrow> getP v k = Some (prop_of v k)"
  by (cases v) (simp_all add: getP_def prop_of_def nullish_def)

lemma getOpt_prop: "getOpt (Some v) k = Some (prop_of v k)"
  by (cases v) (simp_all add: getOpt_def getP_def prop_of_def nullish_def)

lemma truthy_not_nullish: "truthy v \<Longrightarrow> \<not> nullish v"
  by (auto simp: truthy_def nullish_def)

lemma orE_Some: "orE (Some x) (Some y) = Some (or_js x y)"
  by (simp add: orE_def or_js_def)

lemma toolContent_obj:
  "toolContent env (JObj ps) =
     Some (if typeof (prop_of (JObj ps) ''_content'') = ''string''
           then JObj [(''text'', prop_of (JObj ps) ''_content'')]
           else or_js (or_js (prop_of (JObj ps) ''_content'')
                        (parseMaybeJSON (JSON_parse env) (prop_of (JObj ps) ''content'')))
                  (JObj []))"
  by (simp add: toolContent_def getP_prop nullish_def Let_def)

lemma toolContent_truthy: "toolContent env (JObj ps) = Some c \<Longrightarrow> truthy c"
  by (auto simp: toolContent_obj or_js_def truthy_def split: if_splits)

lemma getToolModel_obj:
  assumes "toolContent env (JObj ps) = Some c"
  shows "getToolModel env (JObj ps) =
     Some \<lparr>tm_id = prop_of (JObj ps) ''id'', tm_type = prop_of (JObj ps) ''type'',
           tag = or_js (prop_of c ''tag'') (prop_of (JObj ps) ''tool''),
           attrs = or_js (prop_of c ''attrs'') (prop_of (JObj ps) ''arguments''),
           result = or_js (prop_of c ''result'') (prop_of (JObj ps) ''output''),
           tm_error = or_js (prop_of c ''error'') (prop_of (JObj ps) ''error''),
           logs = or_js (prop_of c ''logs'') (prop_of (prop_of c ''result'') ''logs''),
           path = or_js (prop_of c ''path'') (prop_of (prop_of c ''result'') ''path''),
           workspace = or_js (prop_of c ''workspace'') (prop_of (prop_of c ''result'') ''workspace''),
           mode = or_js (prop_of c ''mode'') (prop_of (prop_of c ''result'') ''mode''),
           created_at = or_js (prop_of (JObj ps) ''timestamp'') (JStr (nowISO env))\<rparr>"
proof -
  have c: "\<not> nullish c"
    using assms by (rule truthy_not_nullish [OF toolContent_truthy])
  have m: "\<not> nullish (JObj ps)" by (simp add: nullish_def)
  show ?thesis
    by (simp add: getToolModel_def assms getP_prop [OF c] getP_prop [OF m] getOpt_prop orE_Some)
qed

lemma example_parse_plain: "example_parse (JStr ''plain text'') = None"
  by (simp add: example_parse_def example_json_def)

text \<open>
  C7 as stated fails on the default of \<open>tag\<close>. A \<open>tool_start\<close> message whose content is
  the plain text \<open>plain text\<close> (not JSON) and that has no \<open>tool\<close> field yields a model whose
  \<open>tag\<close> is \<open>undefined\<close>, not \<open>"unknown"\<close>; \<open>created_at\<close>, in turn, is not left undefined.
\<close>

theorem getToolModel_tag_stays_undefined:
  "getToolModel example_tool_env plain_tool_message =
     Some \<lparr>tm_id = JStr ''t1'', tm_type = JStr ''tool_start'', tag = JUndefined,
           attrs = JUndefined, result = JUndefined, tm_error = JUndefined,
           logs = JUndefined, path = JUndefined, workspace = JUndefined,
           mode = JUndefined, created_at = JStr ''2025-01-01T00:00:00.000Z''\<rparr>
   \<and> JUndefined \<noteq> JStr ''unknown''"
  by (simp add: getToolModel_def toolContent_def plain_tool_message_def example_tool_env_def
      parseMaybeJSON_def example_parse_plain getP_def getOpt_def orE_def or_js_def truthy_def
      typeof_def nullish_def Let_def)

text \<open>
  C7, amended. For every message object, whatever its content, \<open>getToolModel\<close> returns a
  model and does not throw. With \<open>c\<close> the content object (the pre-parsed \<open>_content\<close>, wrapped
  as \<open>{text}\<close> when it is a string, else the parsed \<open>content\<close>, else \<open>{}\<close>): \<open>tag\<close>, \<open>attrs\<close>,
  \<open>result\<close> and \<open>error\<close> are the field of \<open>c\<close> when truthy and otherwise the message's \<open>tool\<close>,
  \<open>arguments\<close>, \<open>output\<close> and \<open>error\<close>; \<open>logs\<close>, \<open>path\<close>, \<open>workspace\<close> and \<open>mode\<close> are the field
  of \<open>c\<close> when truthy and otherwise the field nested in \<open>c.result\<close>. A field resolved by
  neither is \<open>undefined\<close>, \<open>tag\<close> included: there is no \<open>"unknown"\<close> default. Only
  \<open>created_at\<close> has a default, the current time.
\<close>

theorem getToolModel_total:
  "\<exists>c tm. toolContent env (JObj ps) = Some c \<and> getToolModel env (JObj ps) = Some tm
     \<and> tag tm = or_js (prop_of c ''tag'') (prop_of (JObj ps) ''tool'')
     \<and> attrs tm = or_js (prop_of c ''attrs'') (prop_of (JObj ps) ''arguments'')
     \<and> result tm = or_js (prop_of c ''result'') (prop_of (JObj ps) ''output'')
     \<and> tm_error tm = or_js (prop_of c ''error'') (prop_of (JObj ps) ''error'')
     \<and> logs tm = or_js (prop_of c ''logs'') (prop_of (prop_of c ''result'') ''logs'')
     \<and> path tm = or_js (prop_of c ''path'') (prop_of (prop_of c ''result'') ''path'')
     \<and> workspace tm = or_js (prop_of c ''workspace'') (prop_of (prop_of c ''result'') ''workspace'')
     \<and> mode tm = or_js (prop_of c ''mode'') (prop_of (prop_of c ''result'') ''mode'')
     \<and> created_at tm = or_js (prop_of (JObj ps) ''timestamp'') (JStr (nowISO env))
     \<and> (prop_of c ''tag'' = JUndefined \<longrightarrow> prop_of (JObj ps) ''tool'' = JUndefined
          \<longrightarrow> tag tm = JUndefined)
     \<and> (prop_of c ''attrs'' = JUndefined \<longrightarrow> prop_of (JObj ps) ''arguments'' = JUndefined
          \<longrightarrow> attrs tm = JUndefined)
     \<and> (prop_of c ''result'' = JUndefined \<longrightarrow> prop_of (JObj ps) ''output'' = JUndefined
          \<longrightarrow> result tm = JUndefined)
     \<and> (prop_of c ''error'' = JUndefined \<longrightarrow> prop_of (JObj ps) ''error'' = JUndefined
          \<longrightarrow> tm_error tm = JUndefined)
     \<and> (prop_of c ''logs'' = JUndefined \<longrightarrow> prop_of (prop_of c ''result'') ''logs'' = JUndefined
          \<longrightarrow> logs tm = JUndefined)
     \<and> (prop_of c ''path'' = JUndefined \<longrightarrow> prop_of (prop_of c ''result'') ''path'' = JUndefined
          \<longrightarrow> path tm = JUndefined)
     \<and> (prop_of c ''workspace'' = JUndefined
          \<longrightarrow> prop_of (prop_of c ''result'') ''workspace'' = JUndefined
          \<longrightarrow> workspace tm = JUndefined)
     \<and> (prop_of c ''mode'' = JUndefined \<longrightarrow> prop_of (prop_of c ''result'') ''mode'' = JUndefined
          \<longrightarrow> mode tm = JUndefined)"
proof -
  obtain c where c: "toolContent env (JObj ps) = Some c"
    by (simp add: toolContent_obj)
  show ?thesis
    by (simp add: c getToolModel_obj [OF c] or_js_def truthy_def)
qed

lemma toolContent_result_example:
  "toolContent example_tool_env result_tool_message =
     Some (JObj [(''tag'', JStr ''file-write''),
                 (''result'', JObj [(''ok'', JBool True), (''path'', JStr ''out.txt'')])])"
  by (simp add: toolContent_def result_tool_message_def example_tool_env_def parseMaybeJSON_def
      example_parse_def getP_def or_js_def truthy_def typeof_def Let_def example_json_def)

theorem getToolModel_total_witness:
  "\<exists>tm. getToolModel example_tool_env result_tool_message = Some tm
     \<and> tag tm = JStr ''file-write'' \<and> path tm = JStr ''out.txt''
     \<and> attrs tm = JUndefined \<and> logs tm = JUndefined"
  using getToolModel_total
    [of example_tool_env
        "[(''id'', JStr ''t2''), (''type'', JStr ''tool_result''), (''content'', JStr example_json)]"]
    toolContent_result_example
  by (auto simp: result_tool_message_def prop_of_def or_js_def truthy_def)

section \<open>Message Normalizer: properties\<close>

lemma prop_of_setP_other: "k \<noteq> k' \<Longrightarrow> prop_of (setP n k v) k' = prop_of n k'"
  by (cases n) (simp_all add: setP_def prop_of_def)

lemma setP_obj: "\<exists>qs. setP (JObj ps) k v = JObj qs"
  by (simp add: setP_def)

text \<open>
  A record \<open>n\<close> keeps the event \<open>m\<close> when it is an object whose \<open>raw\<close> property is \<open>m\<close>.
  Assignments to other properties do not change that.
\<close>

lemma keeps_setP:
  "k \<noteq> ''raw'' \<Longrightarrow> keeps n m \<Longrightarrow> keeps (setP n k v) m"
  by (cases n) (auto simp: keeps_def setP_def prop_of_def)

lemma parseContent_unparsable:
  "JSON_parse env (JStr c) = None \<Longrightarrow> parseContent env (JStr c) = None"
  by (simp add: parseContent_def)

lemma parseToolMessage_no_wrapper:
  assumes "JSON_parse env (JStr c) = None"
    and "\<not> (includes_str c ''<tool_result>'' \<and> match_all_tool_result c \<noteq> [])"
  shows "parseToolMessage env message (JStr c) = JNull"
  using assms
  by (auto simp: parseToolMessage_def parseToolMessage_try_def escapedResult_def)

lemma detectMessageType_unparsable:
  assumes "JSON_parse env (JStr c) = None" and "c \<noteq> []"
  shows "detectMessageType env (or_js (JStr c) message) = Some JNull"
  using assms
  by (simp add: detectMessageType_def or_js_def truthy_def typeof_def detectCall_def
      detectResult_def Let_def)

lemma statusBranch_keeps:
  "keeps n m \<Longrightarrow> statusBranch message n = Some n' \<Longrightarrow> keeps n' m"
  by (auto simp: statusBranch_def Let_def keeps_setP split: Option.bind_splits if_splits)

lemma textBranch_keeps:
  "keeps n m \<Longrightarrow> textBranch env kind cont n = Some n' \<Longrightarrow> keeps n' m"
  by (auto simp: textBranch_def keeps_setP split: Option.bind_splits if_splits)

lemma toolStartBranch_keeps:
  "keeps n m \<Longrightarrow> toolStartBranch env message cont n = Some n' \<Longrightarrow> keeps n' m"
  by (auto simp: toolStartBranch_def Let_def keeps_setP split: Option.bind_splits if_splits)

lemma toolResultBranch_keeps:
  "keeps n m \<Longrightarrow> toolResultBranch env message cont n = Some n' \<Longrightarrow> keeps n' m"
  by (auto simp: toolResultBranch_def Let_def keeps_setP split: Option.bind_splits if_splits)

lemma toolErrorBranch_keeps:
  "keeps n m \<Longrightarrow> toolErrorBranch env message cont n = Some n' \<Longrightarrow> keeps n' m"
  by (auto simp: toolErrorBranch_def Let_def keeps_setP split: Option.bind_splits if_splits)

lemma toolBranch_keeps:
  assumes "keeps n m" and "parseToolMessage env message cont = JNull"
    and "toolBranch env message cont n = Some r"
  shows "\<exists>n'. r = Inr n' \<and> keeps n' m"
  using assms
  by (auto simp: toolBranch_def Let_def truthy_def keeps_setP split: Option.bind_splits)

lemma fallbackBranch_keeps:
  assumes "keeps n m" and "detectMessageType env (or_js cont message) = Some JNull"
    and "fallbackBranch env message cont n = Some r"
  shows "\<exists>n'. r = Inr n' \<and> keeps n' m"
  using assms
  by (auto simp: fallbackBranch_def truthy_def keeps_setP)
lemma getP_obj: "getP (JObj ps) k = Some (prop_of (JObj ps) k)"
  by (simp add: getP_def prop_of_def)

lemma dispatch_keeps:
  assumes k: "keeps n (JObj ps)"
    and c: "prop_of (JObj ps) ''content'' = JStr c"
    and p: "JSON_parse env (JStr c) = None"
    and ne: "c \<noteq> []"
    and nw: "\<not> wrappedToolEvent (JObj ps)"
    and d: "dispatch env (JObj ps) (JStr c) n = Some r"
  shows "\<exists>n'. r = Inr n' \<and> keeps n' (JObj ps)"
proof -
  have ptm: "parseToolMessage env (JObj ps) (JStr c) = JNull"
    if "prop_of (JObj ps) ''type'' = JStr ''tool'' \<or> prop_of (JObj ps) ''role'' = JStr ''tool''"
  proof -
    have "\<not> (includes_str c ''<tool_result>'' \<and> match_all_tool_result c \<noteq> [])"
      using nw that c by (auto simp: wrappedToolEvent_def)
    then show ?thesis by (rule parseToolMessage_no_wrapper [OF p])
  qed
  have dm: "detectMessageType env (or_js (JStr c) (JObj ps)) = Some JNull"
    by (rule detectMessageType_unparsable [OF p ne])
  note branch =
    statusBranch_keeps [OF k] textBranch_keeps [OF k] toolStartBranch_keeps [OF k]
    toolResultBranch_keeps [OF k] toolErrorBranch_keeps [OF k]
    toolBranch_keeps [OF k ptm [OF disjI1]] toolBranch_keeps [OF k ptm [OF disjI2]]
    fallbackBranch_keeps [OF k dm]
  from d show ?thesis
    by (simp add: dispatch_def getP_obj split: if_splits) (auto dest: branch)
qed

lemma keeps_raw: "keeps n m \<Longrightarrow> prop_of n ''raw'' = m"
  by (cases n) (simp_all add: keeps_def)

lemma normalizeLegacy_keeps:
  assumes c: "prop_of (JObj ps) ''content'' = JStr c"
    and p: "JSON_parse env (JStr c) = None"
    and ne: "c \<noteq> []"
    and nw: "\<not> wrappedToolEvent (JObj ps)"
    and l: "normalizeLegacy env (JObj ps) = Some r"
  shows "prop_of r ''raw'' = JObj ps"
proof -
  have gc: "getP (JObj ps) ''content'' = Some (JStr c)"
    by (simp add: getP_obj c)
  from l obtain v_id d where
    d: "dispatch env (JObj ps) (JStr c)
          (setP (JObj [(''id'', v_id), (''type'', JStr ''unknown''), (''raw'', JObj ps)])
             ''_content'' JUndefined) = Some d"
    and r: "(case d of
               Inl returned \<Rightarrow> Some returned
             | Inr normalized \<Rightarrow>
                 Option.bind (orE (getP (JObj ps) ''timestamp'') (getP (JObj ps) ''created_at''))
                   (\<lambda>v_timestamp. Option.bind (getP (JObj ps) ''metadata'')
                     (\<lambda>md. Option.bind
                        (if truthy md
                         then (if typeof md = ''string'' then JSON_parse env md else Some md)
                         else Some (JObj []))
                        (\<lambda>v_metadata. Some (setP (setP normalized ''timestamp'' v_timestamp)
                                                ''metadata'' v_metadata))))) = Some r"
    using gc
    by (auto simp: normalizeLegacy_def parseContent_unparsable [OF p] Let_def
             split: Option.bind_splits)
  have "keeps (setP (JObj [(''id'', v_id), (''type'', JStr ''unknown''), (''raw'', JObj ps)])
                ''_content'' JUndefined) (JObj ps)"
    by (simp add: keeps_def setP_def prop_of_def)
  from dispatch_keeps [OF this c p ne nw d]
  obtain n' where n': "d = Inr n'" "keeps n' (JObj ps)" by blast
  from r n' obtain ts md where "r = setP (setP n' ''timestamp'' ts) ''metadata'' md"
    by (auto split: Option.bind_splits)
  with n'(2) show ?thesis
    by (simp add: keeps_raw keeps_setP)
qed

lemma orE_id_total:
  "\<exists>v. orE (orE (getP (JObj ps) ''id'') (getP (JObj ps) ''message_id'')) (Some (JStr g)) = Some v"
  by (simp add: orE_def getP_obj)

lemma truthy_obj: "truthy (JObj ps)"
  by (simp add: truthy_def)

lemma normalizeMessage_try_canonical:
  assumes "prop_of (JObj ps) ''type'' \<in> set (map JStr canonicalTypes)"
  shows "\<exists>v. normalizeMessage_try env (JObj ps) = Some (spreadOver [(''id'', v)] (JObj ps))"
proof -
  have t: "truthy (prop_of (JObj ps) ''type'')"
    using assms by (auto simp: canonicalTypes_def truthy_def)
  obtain v where
    "orE (orE (getP (JObj ps) ''id'') (getP (JObj ps) ''message_id''))
       (Some (JStr (generateId env IdCanonical))) = Some v"
    using orE_id_total by blast
  then show ?thesis
    using assms t truthy_obj [of ps] by (auto simp: normalizeMessage_try_def getP_obj)
qed

lemma normalizeMessage_try_legacy:
  assumes "prop_of (JObj ps) ''type'' \<notin> set (map JStr canonicalTypes)"
  shows "normalizeMessage_try env (JObj ps) = normalizeLegacy env (JObj ps)"
  using assms by (simp add: normalizeMessage_try_def truthy_def getP_obj)

lemma prop_of_spreadOver:
  "prop_of (JObj ps) k = JStr c \<Longrightarrow> prop_of (spreadOver base (JObj ps)) k = JStr c"
  by (auto simp: prop_of_def spreadOver_def split: option.splits)

lemma normalizeMessage_try_throws: "normalizeMessage_try example_env bad_metadata_event = None"
  by (simp add: normalizeMessage_try_def bad_metadata_event_def normalizeLegacy_def
      dispatch_def textBranch_def parseContent_def example_env_def example_parse_def
      canonicalTypes_def getP_def orE_def truthy_def typeof_def setP_def Let_def
      example_json_def)

lemma metadata_value:
  assumes "metadataParse env (JObj ps)"
  shows "\<exists>v. (if truthy (prop_of (JObj ps) ''metadata'')
              then (if typeof (prop_of (JObj ps) ''metadata'') = ''string''
                    then JSON_parse env (prop_of (JObj ps) ''metadata'')
                    else Some (prop_of (JObj ps) ''metadata''))
              else Some (JObj [])) = Some v"
  using assms by (auto simp: metadataParse_def Let_def)

lemma metadataUsable_parse: "metadataUsable env m \<Longrightarrow> metadataParse env m"
  by (auto simp: metadataUsable_def metadataParse_def Let_def split: option.splits)

lemma timestamp_value:
  "\<exists>ts. orE (Some (prop_of (JObj ps) ''timestamp'')) (Some (prop_of (JObj ps) ''created_at''))
          = Some ts"
  by (simp add: orE_def)

lemma id_value:
  "\<exists>v. orE (orE (Some (prop_of (JObj ps) ''id'')) (Some (prop_of (JObj ps) ''message_id'')))
          (Some (JStr g)) = Some v"
  by (simp add: orE_def)

lemma extractToolName_total:
  assumes "metadataUsable env (JObj ps)"
  shows "\<exists>v. extractToolName env (JObj ps) cont = Some v"
proof (cases "truthy (prop_of (JObj ps) ''metadata'')")
  case False
  then show ?thesis by (simp add: extractToolName_def getP_obj)
next
  case True
  show ?thesis
  proof (cases "typeof (prop_of (JObj ps) ''metadata'') = ''string''")
    case False
    have "\<not> nullish (prop_of (JObj ps) ''metadata'')"
      using True by (rule truthy_not_nullish)
    then show ?thesis
      using True False by (simp add: extractToolName_def getP_obj getP_prop orE_Some)
  next
    case s: True
    then obtain v where v: "JSON_parse env (prop_of (JObj ps) ''metadata'') = Some v" "\<not> nullish v"
      using assms True by (auto simp: metadataUsable_def Let_def split: option.splits)
    then show ?thesis
      using True s by (simp add: extractToolName_def getP_obj getP_prop orE_Some)
  qed
qed

lemma legacy_text_result:
  assumes e: "legacyTextEvent (JObj ps)"
    and c: "prop_of (JObj ps) ''content'' = JStr c"
    and p: "JSON_parse env (JStr c) = None"
    and md: "metadataParse env (JObj ps)"
  shows "\<exists>n. normalizeLegacy env (JObj ps) = Some n \<and> prop_of n ''content'' = JStr c
            \<and> prop_of n ''raw'' = JObj ps"
proof -
  obtain v where v:
    "orE (orE (Some (prop_of (JObj ps) ''id'')) (Some (prop_of (JObj ps) ''message_id'')))
       (Some (JStr (generateId env IdLegacy))) = Some v"
    using id_value by blast
  obtain ts where ts:
    "orE (Some (prop_of (JObj ps) ''timestamp'')) (Some (prop_of (JObj ps) ''created_at''))
       = Some ts"
    using timestamp_value by blast
  obtain mv where mv:
    "(if truthy (prop_of (JObj ps) ''metadata'')
      then (if typeof (prop_of (JObj ps) ''metadata'') = ''string''
            then JSON_parse env (prop_of (JObj ps) ''metadata'')
            else Some (prop_of (JObj ps) ''metadata''))
      else Some (JObj [])) = Some mv"
    using metadata_value [OF md] by blast
  have t: "prop_of (JObj ps) ''type'' \<noteq> JStr ''status''"
    "prop_of (JObj ps) ''type'' \<noteq> JStr ''user''"
    "prop_of (JObj ps) ''type'' \<noteq> JStr ''assistant''"
    "prop_of (JObj ps) ''type'' \<noteq> JStr ''tool''"
    using e by (auto simp: legacyTextEvent_def legacyEvent_def canonicalTypes_def)
  have r: "prop_of (JObj ps) ''role'' = JStr ''user'' \<or> prop_of (JObj ps) ''role'' = JStr ''assistant''"
    using e by (simp add: legacyTextEvent_def)
  have "\<exists>kind. normalizeLegacy env (JObj ps) =
      Some (setP (setP (setP (setP (setP
              (JObj [(''id'', v), (''type'', JStr ''unknown''), (''raw'', JObj ps)])
              ''_content'' JUndefined) ''type'' (JStr kind)) ''content'' (JStr c))
              ''timestamp'' ts) ''metadata'' mv)"
    using r t
    by (auto simp: normalizeLegacy_def v ts mv getP_obj c parseContent_unparsable [OF p]
             dispatch_def textBranch_def typeof_def Let_def)
  then show ?thesis
    by (auto simp: setP_def prop_of_def)
qed

lemma legacy_tool_result:
  assumes e: "legacyToolEvent (JObj ps)"
    and c: "prop_of (JObj ps) ''content'' = JStr c"
    and ne: "c \<noteq> []"
    and p: "JSON_parse env (JStr c) = None"
    and nw: "\<not> wrappedToolEvent (JObj ps)"
    and md: "metadataUsable env (JObj ps)"
  shows "\<exists>n. normalizeLegacy env (JObj ps) = Some n \<and> prop_of n ''output'' = JStr c
            \<and> prop_of n ''raw'' = JObj ps"
proof -
  obtain v where v:
    "orE (orE (Some (prop_of (JObj ps) ''id'')) (Some (prop_of (JObj ps) ''message_id'')))
       (Some (JStr (generateId env IdLegacy))) = Some v"
    using id_value by blast
  obtain ts where ts:
    "orE (Some (prop_of (JObj ps) ''timestamp'')) (Some (prop_of (JObj ps) ''created_at''))
       = Some ts"
    using timestamp_value by blast
  obtain mv where mv:
    "(if truthy (prop_of (JObj ps) ''metadata'')
      then (if typeof (prop_of (JObj ps) ''metadata'') = ''string''
            then JSON_parse env (prop_of (JObj ps) ''metadata'')
            else Some (prop_of (JObj ps) ''metadata''))
      else Some (JObj [])) = Some mv"
    using metadata_value [OF metadataUsable_parse [OF md]] by blast
  obtain tn where tn: "extractToolName env (JObj ps) (JStr c) = Some tn"
    using extractToolName_total [OF md] by blast
  have t: "prop_of (JObj ps) ''type'' \<noteq> JStr ''status''"
    using e by (auto simp: legacyToolEvent_def legacyEvent_def canonicalTypes_def)
  have r: "prop_of (JObj ps) ''type'' = JStr ''tool'' \<or> prop_of (JObj ps) ''role'' = JStr ''tool''"
    using e by (simp add: legacyToolEvent_def)
  have "\<not> (includes_str c ''<tool_result>'' \<and> match_all_tool_result c \<noteq> [])"
    using nw r c by (auto simp: wrappedToolEvent_def)
  then have pt: "parseToolMessage env (JObj ps) (JStr c) = JNull"
    by (rule parseToolMessage_no_wrapper [OF p])
  have out: "orE (Some (JStr c)) (Some (prop_of (JObj ps) ''output'')) = Some (JStr c)"
    using ne by (simp add: orE_def truthy_def)
  have "normalizeLegacy env (JObj ps) =
      Some (setP (setP (setP (setP (setP (setP (setP
              (JObj [(''id'', v), (''type'', JStr ''unknown''), (''raw'', JObj ps)])
              ''_content'' JUndefined) ''type'' (JStr ''tool_result'')) ''tool'' tn)
              ''output'' (JStr c))
              ''success'' (notFalse (prop_of (JObj ps) ''success'')))
              ''timestamp'' ts) ''metadata'' mv)"
    using r t
    by (auto simp: normalizeLegacy_def v ts mv tn pt out getP_obj c
             parseContent_unparsable [OF p] dispatch_def toolBranch_def Let_def
             truthy_def [of JNull])
  then show ?thesis
    by (auto simp: setP_def prop_of_def)
qed

lemma normalizeMessage_legacy:
  assumes "legacyEvent (JObj ps)" and "normalizeLegacy env (JObj ps) = Some n"
  shows "normalizeMessage env (JObj ps) = Some n"
  using assms
  by (simp add: normalizeMessage_def legacyEvent_def normalizeMessage_try_legacy)

lemma normalizeMessage_total: "\<exists>r. normalizeMessage env message = Some r"
  by (cases "normalizeMessage_try env message") (simp_all add: normalizeMessage_def)

lemma wrapped_tool_event_result:
  "normalizeMessage example_env wrapped_tool_event =
     Some (JObj [(''id'', JStr ''msg_1_abc''), (''type'', JStr ''tool_result''),
                 (''tool'', JStr ''tool''), (''output'', JUndefined),
                 (''success'', JBool True), (''timestamp'', JUndefined)])"
  by (simp add: normalizeMessage_def normalizeMessage_try_def wrapped_tool_event_def
      normalizeLegacy_def dispatch_def toolBranch_def parseToolMessage_def
      parseToolMessage_try_def wrapperResult_def wrapperFallback_def extractToolName_def
      nameFromContent_def idOr_def isTagChar_def match_tool_result_def
      parseContent_def example_env_def example_parse_def canonicalTypes_def
      getP_def orE_def truthy_def typeof_def setP_def prop_of_def Let_def example_json_def)

lemma bad_metadata_event_result:
  "normalizeMessage example_env bad_metadata_event =
     Some (JObj [(''id'', JStr ''msg_1_abc''), (''type'', JStr ''unknown''),
                 (''content'', JStr ''Error normalizing message: SyntaxError: Unexpected token''),
                 (''raw'', bad_metadata_event)])"
  by (simp add: normalizeMessage_def normalizeMessage_try_throws) (simp add: example_env_def)

lemma example_parse_texts:
  "JSON_parse example_env (JStr ''hello there'') = None"
  "JSON_parse example_env (JStr ''plain text'') = None"
  "JSON_parse example_env (JStr ''<tool_result>done</tool_result>'') = None"
  "JSON_parse example_env (JStr ''oops'') = None"
  by (simp_all add: example_env_def example_parse_def example_json_def)

text \<open>
  C4 as stated fails on the retention of the content, on two events whose content is not
  JSON. The legacy user event with content \<open>hello there\<close> and the metadata \<open>oops\<close> makes the
  body throw on its metadata, and the \<open>catch\<close> block returns a message whose \<open>content\<close> is the
  error text; the original string is left only inside the event held under \<open>raw\<close>. The
  legacy tool event with content \<open><tool_result>done</tool_result>\<close> is normalized to a
  tool result that has neither a \<open>content\<close> nor a \<open>raw\<close> property, and whose \<open>output\<close> is
  \<open>match[1]\<close>: the original string is in no property of the result.
\<close>

theorem unparsed_content_not_retained:
  "JSON_parse example_env (JStr ''hello there'') = None
   \<and> prop_of bad_metadata_event ''content'' = JStr ''hello there''
   \<and> normalizeMessage example_env bad_metadata_event =
       Some (JObj [(''id'', JStr ''msg_1_abc''), (''type'', JStr ''unknown''),
                   (''content'',
                    JStr ''Error normalizing message: SyntaxError: Unexpected token''),
                   (''raw'', bad_metadata_event)])
   \<and> JSON_parse example_env (JStr ''<tool_result>done</tool_result>'') = None
   \<and> prop_of wrapped_tool_event ''content'' = JStr ''<tool_result>done</tool_result>''
   \<and> normalizeMessage example_env wrapped_tool_event =
       Some (JObj [(''id'', JStr ''msg_1_abc''), (''type'', JStr ''tool_result''),
                   (''tool'', JStr ''tool''), (''output'', JUndefined),
                   (''success'', JBool True), (''timestamp'', JUndefined)])"
  using wrapped_tool_event_result bad_metadata_event_result example_parse_texts
  by (simp add: bad_metadata_event_def wrapped_tool_event_def prop_of_def)

text \<open>
  C4, amended. \<open>normalizeMessage\<close> returns a message for every event and never throws. For
  an event object whose content is a string that does not parse as JSON, the original
  string is retained verbatim as follows. An event of canonical type keeps it as its
  \<open>content\<close>. A legacy user or assistant event whose metadata parse keeps it as its \<open>content\<close>,
  and the event itself under \<open>raw\<close>. A legacy tool event with a non-empty content, no
  \<open>tool_result\<close> wrapper and usable metadata keeps it as its \<open>output\<close>, and the event itself
  under \<open>raw\<close>. Every other legacy event with a non-empty content that is not a wrapped
  tool event (an event of unknown kind, or one whose metadata make the body throw) keeps
  the original event, and the string within it, under \<open>raw\<close>. Nothing is stated for a legacy
  tool event whose content holds a \<open>tool_result\<close> wrapper.
\<close>

theorem normalizeMessage_total_and_retains:
  "\<exists>r. normalizeMessage env message = Some r
     \<and> (\<forall>ps c. message = JObj ps \<longrightarrow> prop_of message ''content'' = JStr c
          \<longrightarrow> JSON_parse env (JStr c) = None
          \<longrightarrow> (legacyTextEvent message \<longrightarrow> metadataParse env message
                \<longrightarrow> prop_of r ''content'' = JStr c \<and> prop_of r ''raw'' = message)
            \<and> (legacyToolEvent message \<longrightarrow> c \<noteq> [] \<longrightarrow> \<not> wrappedToolEvent message
                \<longrightarrow> metadataUsable env message
                \<longrightarrow> prop_of r ''output'' = JStr c \<and> prop_of r ''raw'' = message)
            \<and> (legacyEvent message \<longrightarrow> c \<noteq> [] \<longrightarrow> \<not> wrappedToolEvent message
                \<longrightarrow> prop_of r ''raw'' = message))
     \<and> (\<forall>ps c. message = JObj ps \<longrightarrow> prop_of message ''content'' = JStr c
          \<longrightarrow> prop_of message ''type'' \<in> set (map JStr canonicalTypes)
          \<longrightarrow> prop_of r ''content'' = JStr c)"
proof -
  obtain r where r: "normalizeMessage env message = Some r"
    using normalizeMessage_total by blast
  have A: "prop_of r ''content'' = JStr c"
    if "message = JObj ps" "prop_of message ''content'' = JStr c"
      "prop_of message ''type'' \<in> set (map JStr canonicalTypes)" for ps c
    using normalizeMessage_try_canonical [of ps env] r that
    by (auto simp: normalizeMessage_def prop_of_spreadOver)
  have B: "prop_of r ''content'' = JStr c \<and> prop_of r ''raw'' = message"
    if m: "message = JObj ps" and c: "prop_of message ''content'' = JStr c"
      and p: "JSON_parse env (JStr c) = None" and e: "legacyTextEvent message"
      and md: "metadataParse env message" for ps c
  proof -
    obtain n where n: "normalizeLegacy env (JObj ps) = Some n"
      "prop_of n ''content'' = JStr c" "prop_of n ''raw'' = JObj ps"
      using legacy_text_result [of ps c env] c p e md m by auto
    have "legacyEvent (JObj ps)" using e m by (simp add: legacyTextEvent_def)
    then have "normalizeMessage env (JObj ps) = Some n"
      using n(1) by (rule normalizeMessage_legacy)
    then show ?thesis using r m n by simp
  qed
  have C: "prop_of r ''output'' = JStr c \<and> prop_of r ''raw'' = message"
    if m: "message = JObj ps" and c: "prop_of message ''content'' = JStr c"
      and p: "JSON_parse env (JStr c) = None" and e: "legacyToolEvent message"
      and ne: "c \<noteq> []" and nw: "\<not> wrappedToolEvent message"
      and md: "metadataUsable env message" for ps c
  proof -
    obtain n where n: "normalizeLegacy env (JObj ps) = Some n"
      "prop_of n ''output'' = JStr c" "prop_of n ''raw'' = JObj ps"
      using legacy_tool_result [of ps c env] c p e ne nw md m by auto
    have "legacyEvent (JObj ps)" using e m by (simp add: legacyToolEvent_def)
    then have "normalizeMessage env (JObj ps) = Some n"
      using n(1) by (rule normalizeMessage_legacy)
    then show ?thesis using r m n by simp
  qed
  have D: "prop_of r ''raw'' = message"
    if m: "message = JObj ps" and c: "prop_of message ''content'' = JStr c"
      and p: "JSON_parse env (JStr c) = None" and e: "legacyEvent message"
      and ne: "c \<noteq> []" and nw: "\<not> wrappedToolEvent message" for ps c
  proof (cases "normalizeLegacy env (JObj ps)")
    case None
    then show ?thesis
      using r m e
      by (auto simp: normalizeMessage_def legacyEvent_def normalizeMessage_try_legacy prop_of_def)
  next
    case (Some n)
    have "normalizeMessage env (JObj ps) = Some n"
      using e m Some by (auto intro: normalizeMessage_legacy)
    moreover have "prop_of n ''raw'' = JObj ps"
      using normalizeLegacy_keeps [of ps c env n] c ne p nw m Some by simp
    ultimately show ?thesis using r m by simp
  qed
  show ?thesis
    by (rule exI [of _ r]) (use r A B C D in blast)
qed

theorem normalizeMessage_total_and_retains_witness:
  "(JSON_parse example_env (JStr ''hello there'') = None
    \<and> prop_of user_event ''content'' = JStr ''hello there''
    \<and> legacyTextEvent user_event \<and> metadataParse example_env user_event
    \<and> (\<exists>r. normalizeMessage example_env user_event = Some r
           \<and> prop_of r ''content'' = JStr ''hello there'' \<and> prop_of r ''raw'' = user_event))
   \<and> (JSON_parse example_env (JStr ''plain text'') = None
    \<and> prop_of plain_tool_event ''content'' = JStr ''plain text''
    \<and> legacyToolEvent plain_tool_event \<and> \<not> wrappedToolEvent plain_tool_event
    \<and> metadataUsable example_env plain_tool_event
    \<and> (\<exists>r. normalizeMessage example_env plain_tool_event = Some r
           \<and> prop_of r ''output'' = JStr ''plain text'' \<and> prop_of r ''raw'' = plain_tool_event))
   \<and> (prop_of canonical_event ''type'' \<in> set (map JStr canonicalTypes)
    \<and> (\<exists>r. normalizeMessage example_env canonical_event = Some r
           \<and> prop_of r ''content'' = JStr ''hello there''))"
proof -
  have u: "user_event = JObj [(''role'', JStr ''user''), (''content'', JStr ''hello there'')]"
    "prop_of user_event ''content'' = JStr ''hello there''"
    "legacyTextEvent user_event" "metadataParse example_env user_event"
    by (simp_all add: user_event_def prop_of_def legacyTextEvent_def legacyEvent_def
        canonicalTypes_def metadataParse_def truthy_def Let_def)
  have t: "plain_tool_event = JObj [(''role'', JStr ''tool''), (''content'', JStr ''plain text'')]"
    "prop_of plain_tool_event ''content'' = JStr ''plain text''"
    "legacyToolEvent plain_tool_event" "\<not> wrappedToolEvent plain_tool_event"
    "metadataUsable example_env plain_tool_event"
    by (simp_all add: plain_tool_event_def prop_of_def legacyToolEvent_def legacyEvent_def
        canonicalTypes_def metadataUsable_def wrappedToolEvent_def truthy_def Let_def)
  have k: "canonical_event =
             JObj [(''type'', JStr ''assistant''), (''content'', JStr ''hello there''),
                   (''message_id'', JStr ''m7'')]"
    "prop_of canonical_event ''content'' = JStr ''hello there''"
    "prop_of canonical_event ''type'' \<in> set (map JStr canonicalTypes)"
    by (simp_all add: canonical_event_def prop_of_def canonicalTypes_def)
  have 1: "\<exists>r. normalizeMessage example_env user_event = Some r
           \<and> prop_of r ''content'' = JStr ''hello there'' \<and> prop_of r ''raw'' = user_event"
    using normalizeMessage_total_and_retains [of example_env user_event]
      u example_parse_texts(1) by blast
  have 2: "\<exists>r. normalizeMessage example_env plain_tool_event = Some r
           \<and> prop_of r ''output'' = JStr ''plain text'' \<and> prop_of r ''raw'' = plain_tool_event"
    using normalizeMessage_total_and_retains [of example_env plain_tool_event]
      t example_parse_texts(2) by blast
  have 3: "\<exists>r. normalizeMessage example_env canonical_event = Some r
           \<and> prop_of r ''content'' = JStr ''hello there''"
    using normalizeMessage_total_and_retains [of example_env canonical_event] k by blast
  show ?thesis
    using 1 2 3 u(2-4) t(2-5) k(3) example_parse_texts(1,2) by simp
qed

end
